theory Spec2Isabelle
  imports Complex_Main "HOL-Library.Sublist"
begin

section \<open>Data model (models.py, schemas.py)\<close>

text \<open>
  The enums of models.py. \<open>RelatedEntityType.order\<close> and \<open>RelatedEntityType.bag\<close> are
  written \<open>order_entity\<close> and \<open>bag_entity\<close>.
\<close>

datatype UserRole = customer | business_owner

datatype OrderStatus = pending | confirmed | cancelled | completed

datatype NotificationType = order_confirmation | pickup_reminder | new_bag | order_update

datatype RelatedEntityType = order_entity | bag_entity

text \<open>
  The mapped classes of models.py, one record per table row. A column name used by several
  tables carries the table as a suffix (\<open>id_user\<close>, \<open>id_bag\<close>, \<open>created_at_order\<close>);
  the fields of the request schemas \<open>SurpriseBagCreate\<close> and \<open>OrderCreate\<close> carry
  the suffix \<open>_in\<close>. Integer columns are Python integers (\<open>int\<close>), prices are compared
  as numbers (\<open>real\<close>; the request schema excludes NaN by \<open>gt=0\<close>), datetimes are
  points on a time line (\<open>int\<close>), JSON columns are kept as their text. The price columns
  are \<open>Numeric(10, 2)\<close>: a row holds what the column makes of the value written to it.
\<close>

record User =
  id_user :: int
  email :: string
  password_hash :: string
  name :: string
  phone :: "string option"
  created_at_user :: int
  is_active_user :: bool
  role :: UserRole

record BusinessOwner =
  owner_id :: int
  business_name :: string
  business_description :: "string option"
  address :: string
  logo_url :: "string option"
  registration_date :: int
  business_hours :: "string option"
  is_verified :: bool
  created_at_business :: int

record SurpriseBag =
  id_bag :: int
  business_id :: int
  title :: string
  description :: string
  contents :: "string option"
  original_price :: real
  discount_price :: real
  quantity_available :: int
  quantity_sold :: int
  pickup_start :: int
  pickup_end :: int
  created_at_bag :: int
  image_urls :: "string list option"
  is_active_bag :: bool

record Order =
  order_id :: string
  customer_id :: "int option"
  bag_id :: int
  total_price :: real
  status :: OrderStatus
  created_at_order :: int
  updated_at :: int
  pickup_code :: string
  rating :: "int option"
  feedback :: "string option"

record Notification =
  notification_id :: string
  user_id :: int
  type_notification :: NotificationType
  title_notification :: string
  message :: string
  is_read :: bool
  created_at_notification :: int
  related_entity_type :: RelatedEntityType
  related_entity_id :: string

text \<open>
  An optional field of a request body is either absent from the body (\<open>Unset\<close>) or given
  (\<open>Given v\<close>, where \<open>v\<close> may be \<open>None\<close>): \<open>dict()\<close> yields the default \<open>None\<close> for
  an absent field, \<open>dict(exclude_unset=True)\<close> leaves the key out.
\<close>

datatype 'a field = Unset | Given 'a

record SurpriseBagCreate =
  title_in :: string
  description_in :: string
  contents_in :: "string option field"
  original_price_in :: real
  discount_price_in :: real
  quantity_available_in :: int
  pickup_start_in :: int
  pickup_end_in :: int
  image_urls_in :: "string list option field"

record OrderCreate =
  bag_id_in :: int
  total_price_in :: real

datatype http_exception = HTTPException (status_code: nat) (detail: string)

section \<open>The session\<close>

text \<open>
  The database session as explicit state: the five tables in insertion order, the
  autoincrement counter of \<open>surprise_bags.id\<close>, and the two things the services read from
  their environment: \<open>uuid.uuid4()\<close>, a sequence \<open>uuid_gen\<close> of strings read at the
  position \<open>uuid_pos\<close>, and the clock \<open>utcnow\<close>. \<open>db.add\<close> followed by \<open>db.commit\<close>
  appends the row; an attribute assignment followed by \<open>db.commit\<close> rewrites the row
  the query returned. Every service returns the session it leaves behind, also when it
  raises.

  The storage engine is not part of the source. What it does to a price is a parameter of
  the session: \<open>numeric_10_2 x\<close> is the value a \<open>Numeric(10, 2)\<close> column gives back
  (on \<open>db.refresh\<close> and on every later query) after \<open>x\<close> has been written to it.
\<close>

record state =
  users :: "User list"
  business_owners :: "BusinessOwner list"
  surprise_bags :: "SurpriseBag list"
  orders :: "Order list"
  notifications :: "Notification list"
  bag_id_seq :: int
  uuid_gen :: "nat \<Rightarrow> string"
  uuid_pos :: nat
  utcnow :: int
  numeric_10_2 :: "real \<Rightarrow> real"

type_synonym 'a result = "(http_exception + 'a) \<times> state"

definition uuid4 :: "state \<Rightarrow> string \<times> state" where
  "uuid4 s = (uuid_gen s (uuid_pos s), s\<lparr>uuid_pos := Suc (uuid_pos s)\<rparr>)"

text \<open>A listing as the table holds it once \<open>db.commit\<close> has written it: both prices have
  gone through their \<open>Numeric(10, 2)\<close> column.\<close>

definition store_bag :: "state \<Rightarrow> SurpriseBag \<Rightarrow> SurpriseBag" where
  "store_bag s b =
     b\<lparr>original_price := numeric_10_2 s (original_price b),
       discount_price := numeric_10_2 s (discount_price b)\<rparr>"

text \<open>\<open>query.filter(P).first()\<close> is \<^const>\<open>find\<close>; the row it returns is rewritten by
  \<open>update_first\<close>.\<close>

fun update_first :: "('a \<Rightarrow> bool) \<Rightarrow> ('a \<Rightarrow> 'a) \<Rightarrow> 'a list \<Rightarrow> 'a list" where
  "update_first P f [] = []"
| "update_first P f (x # xs) = (if P x then f x # xs else x # update_first P f xs)"

text \<open>\<open>str\<close> of a Python integer.\<close>

fun str_nat :: "nat \<Rightarrow> string" where
  "str_nat n = (if n < 10 then [char_of (48 + n)] else str_nat (n div 10) @ [char_of (48 + n mod 10)])"

definition str_int :: "int \<Rightarrow> string" where
  "str_int i = (if i < 0 then CHR ''-'' # str_nat (nat (- i)) else str_nat (nat i))"

text \<open>An \<open>OrderStatus\<close> inside an f-string, rendered as its value (what \<open>format\<close> gives
  for an enum mixed with \<open>str\<close> before Python 3.11; no property below depends on it).\<close>

fun str_status :: "OrderStatus \<Rightarrow> string" where
  "str_status pending = ''pending''"
| "str_status confirmed = ''confirmed''"
| "str_status cancelled = ''cancelled''"
| "str_status completed = ''completed''"

section \<open>Surprise bag services (services.py)\<close>

definition get_business_owner :: "state \<Rightarrow> int \<Rightarrow> BusinessOwner option" where
  "get_business_owner s uid = find (\<lambda>b. owner_id b = uid) (business_owners s)"

text \<open>The loop of \<open>create_surprise_bag\<close> over the customers: one \<open>new_bag\<close> notification each.\<close>

fun notify_customers :: "state \<Rightarrow> SurpriseBag \<Rightarrow> BusinessOwner \<Rightarrow> User list \<Rightarrow> state" where
  "notify_customers s db_bag db_business [] = s"
| "notify_customers s db_bag db_business (c # cs) =
     (case uuid4 s of (nid, s1) \<Rightarrow>
        notify_customers
          (s1\<lparr>notifications := notifications s1 @
             [\<lparr>notification_id = nid, user_id = id_user c, type_notification = new_bag,
               title_notification = ''New Surprise Bag Available!'',
               message = ''A new surprise bag '' @ [CHR 0x27] @ title db_bag @ [CHR 0x27]
                          @ '' is available at '' @ business_name db_business @ ''!'',
               is_read = False, created_at_notification = utcnow s1,
               related_entity_type = bag_entity,
               related_entity_id = str_int (id_bag db_bag)\<rparr>]\<rparr>)
          db_bag db_business cs)"

definition default_field :: "'a option field \<Rightarrow> 'a option" where
  "default_field f = (case f of Unset \<Rightarrow> None | Given v \<Rightarrow> v)"

definition create_surprise_bag :: "state \<Rightarrow> SurpriseBagCreate \<Rightarrow> int \<Rightarrow> SurpriseBag result" where
  "create_surprise_bag s bag bid =
     (case find (\<lambda>b. owner_id b = bid) (business_owners s) of
        None \<Rightarrow> (Inl (HTTPException 404 ''Business not found''), s)
      | Some db_business \<Rightarrow>
          if discount_price_in bag \<ge> original_price_in bag
          then (Inl (HTTPException 400 ''Discount price must be less than original price''), s)
          else if pickup_end_in bag \<le> pickup_start_in bag
          then (Inl (HTTPException 400 ''Pickup end time must be after pickup start time''), s)
          else
            let db_bag = store_bag s
                          \<lparr>id_bag = bag_id_seq s + 1, business_id = bid,
                           title = title_in bag, description = description_in bag,
                           contents = default_field (contents_in bag),
                           original_price = original_price_in bag,
                           discount_price = discount_price_in bag,
                           quantity_available = quantity_available_in bag,
                           quantity_sold = 0,
                           pickup_start = pickup_start_in bag, pickup_end = pickup_end_in bag,
                           created_at_bag = utcnow s,
                           image_urls = default_field (image_urls_in bag),
                           is_active_bag = True\<rparr>;
                s1 = s\<lparr>surprise_bags := surprise_bags s @ [db_bag],
                        bag_id_seq := bag_id_seq s + 1\<rparr>;
                customers = filter (\<lambda>u. role u = customer) (users s1)
            in (Inr db_bag, notify_customers s1 db_bag db_business customers))"

definition get_surprise_bag :: "state \<Rightarrow> int \<Rightarrow> SurpriseBag option" where
  "get_surprise_bag s bid = find (\<lambda>b. id_bag b = bid) (surprise_bags s)"

text \<open>The \<open>setattr\<close> loop of \<open>update_surprise_bag\<close> over \<open>dict(exclude_unset=True)\<close>.\<close>

definition apply_update :: "SurpriseBagCreate \<Rightarrow> SurpriseBag \<Rightarrow> SurpriseBag" where
  "apply_update u b =
     b\<lparr>title := title_in u, description := description_in u,
       contents := (case contents_in u of Unset \<Rightarrow> contents b | Given v \<Rightarrow> v),
       original_price := original_price_in u, discount_price := discount_price_in u,
       quantity_available := quantity_available_in u,
       pickup_start := pickup_start_in u, pickup_end := pickup_end_in u,
       image_urls := (case image_urls_in u of Unset \<Rightarrow> image_urls b | Given v \<Rightarrow> v)\<rparr>"

definition update_surprise_bag ::
  "state \<Rightarrow> int \<Rightarrow> int \<Rightarrow> SurpriseBagCreate \<Rightarrow> SurpriseBag result" where
  "update_surprise_bag s bid business bag_update =
     (case find (\<lambda>b. id_bag b = bid \<and> business_id b = business) (surprise_bags s) of
        None \<Rightarrow> (Inl (HTTPException 404 ''Surprise bag not found or not authorized''), s)
      | Some db_bag \<Rightarrow>
          (Inr (store_bag s (apply_update bag_update db_bag)),
           s\<lparr>surprise_bags :=
                update_first (\<lambda>b. id_bag b = bid \<and> business_id b = business)
                  (\<lambda>b. store_bag s (apply_update bag_update b)) (surprise_bags s)\<rparr>))"

definition delete_surprise_bag :: "state \<Rightarrow> int \<Rightarrow> int \<Rightarrow> string result" where
  "delete_surprise_bag s bid business =
     (case find (\<lambda>b. id_bag b = bid \<and> business_id b = business) (surprise_bags s) of
        None \<Rightarrow> (Inl (HTTPException 404 ''Surprise bag not found or not authorized''), s)
      | Some db_bag \<Rightarrow>
          if length (filter (\<lambda>r. bag_id r = bid \<and> (status r = pending \<or> status r = confirmed))
                       (orders s)) > 0
          then (Inl (HTTPException 400 ''Cannot delete surprise bag with active orders''), s)
          else (Inr ''Surprise bag deactivated'',
                s\<lparr>surprise_bags :=
                     update_first (\<lambda>b. id_bag b = bid \<and> business_id b = business)
                       (\<lambda>b. b\<lparr>is_active_bag := False\<rparr>) (surprise_bags s)\<rparr>))"

section \<open>Order services (services.py)\<close>

text \<open>
  The loop of \<open>create_order\<close>: while some order already has the candidate code, draw the next
  UUID and keep its first eight characters. The source puts no bound on the number of
  rounds, so the loop is a partial function: \<open>None\<close> is the run that never leaves it.
\<close>

partial_function (option) pickup_code_loop :: "state \<Rightarrow> string \<Rightarrow> (string \<times> state) option" where
  "pickup_code_loop s code =
     (if find (\<lambda>r. pickup_code r = code) (orders s) \<noteq> None
      then (case uuid4 s of (u, s1) \<Rightarrow> pickup_code_loop s1 (take 8 u))
      else Some (code, s))"

definition create_order :: "state \<Rightarrow> OrderCreate \<Rightarrow> int \<Rightarrow> Order result option" where
  "create_order s ord cid =
     (case get_surprise_bag s (bag_id_in ord) of
        None \<Rightarrow> Some (Inl (HTTPException 404 ''Surprise bag not found or not available''), s)
      | Some db_bag \<Rightarrow>
          if \<not> is_active_bag db_bag
          then Some (Inl (HTTPException 404 ''Surprise bag not found or not available''), s)
          else if quantity_available db_bag \<le> quantity_sold db_bag
          then Some (Inl (HTTPException 400 ''Surprise bag is sold out''), s)
          else
            (case uuid4 s of (u0, s0) \<Rightarrow>
              (case pickup_code_loop s0 (take 8 u0) of
                 None \<Rightarrow> None
               | Some (code, s1) \<Rightarrow>
                  (case uuid4 s1 of (oid, s2) \<Rightarrow>
                    let db_order = \<lparr>order_id = oid, customer_id = Some cid,
                                     bag_id = bag_id_in ord,
                                     total_price = numeric_10_2 s2 (total_price_in ord),
                                     status = pending, created_at_order = utcnow s2,
                                     updated_at = utcnow s2, pickup_code = code,
                                     rating = None, feedback = None\<rparr>;
                        s3 = s2\<lparr>surprise_bags :=
                                   update_first (\<lambda>b. id_bag b = bag_id_in ord)
                                     (\<lambda>b. b\<lparr>quantity_sold := quantity_sold b + 1\<rparr>)
                                     (surprise_bags s2),
                                 orders := orders s2 @ [db_order]\<rparr>
                    in (case uuid4 s3 of (nid, s4) \<Rightarrow>
                         Some (Inr db_order,
                           s4\<lparr>notifications := notifications s4 @
                             [\<lparr>notification_id = nid, user_id = cid,
                               type_notification = order_confirmation,
                               title_notification = ''Order Confirmed!'',
                               message = ''Your order for '' @ [CHR 0x27] @ title db_bag
                                 @ [CHR 0x27] @ '' has been placed. Pickup code: '' @ code,
                               is_read = False, created_at_notification = utcnow s4,
                               related_entity_type = order_entity,
                               related_entity_id = oid\<rparr>]\<rparr>))))))"

definition get_order :: "state \<Rightarrow> string \<Rightarrow> Order option" where
  "get_order s oid = find (\<lambda>r. order_id r = oid) (orders s)"

definition update_order_status :: "state \<Rightarrow> string \<Rightarrow> int \<Rightarrow> OrderStatus \<Rightarrow> Order result" where
  "update_order_status s oid cid st =
     (case find (\<lambda>r. order_id r = oid \<and> customer_id r = Some cid) (orders s) of
        None \<Rightarrow> (Inl (HTTPException 404 ''Order not found or not authorized''), s)
      | Some db_order \<Rightarrow>
          let s1 = s\<lparr>orders :=
                       update_first (\<lambda>r. order_id r = oid \<and> customer_id r = Some cid)
                         (\<lambda>r. r\<lparr>status := st, updated_at := utcnow s\<rparr>) (orders s)\<rparr>
          in (case uuid4 s1 of (nid, s2) \<Rightarrow>
               (Inr (db_order\<lparr>status := st, updated_at := utcnow s\<rparr>),
                s2\<lparr>notifications := notifications s2 @
                  [\<lparr>notification_id = nid, user_id = cid, type_notification = order_update,
                    title_notification = ''Order Status Updated'',
                    message = ''Your order status has been updated to '' @ [CHR 0x27]
                      @ str_status st @ [CHR 0x27] @ ''.'',
                    is_read = False, created_at_notification = utcnow s2,
                    related_entity_type = order_entity, related_entity_id = oid\<rparr>]\<rparr>)))"

definition delete_order :: "state \<Rightarrow> string \<Rightarrow> int \<Rightarrow> string result" where
  "delete_order s oid cid =
     (case find (\<lambda>r. order_id r = oid \<and> customer_id r = Some cid) (orders s) of
        None \<Rightarrow> (Inl (HTTPException 404 ''Order not found or not authorized''), s)
      | Some db_order \<Rightarrow>
          if status db_order \<noteq> pending
          then (Inl (HTTPException 400 ''Can only delete pending orders''), s)
          else
            let s1 = (case get_surprise_bag s (bag_id db_order) of
                        None \<Rightarrow> s
                      | Some db_bag \<Rightarrow>
                          s\<lparr>surprise_bags :=
                               update_first (\<lambda>b. id_bag b = bag_id db_order)
                                 (\<lambda>b. b\<lparr>quantity_sold := quantity_sold b - 1\<rparr>)
                                 (surprise_bags s)\<rparr>);
                s2 = s1\<lparr>orders :=
                          update_first (\<lambda>r. order_id r = oid \<and> customer_id r = Some cid)
                            (\<lambda>r. r\<lparr>status := cancelled, updated_at := utcnow s1\<rparr>)
                            (orders s1)\<rparr>
            in (case uuid4 s2 of (nid, s3) \<Rightarrow>
                 (Inr ''Order cancelled'',
                  s3\<lparr>notifications := notifications s3 @
                    [\<lparr>notification_id = nid, user_id = cid, type_notification = order_update,
                      title_notification = ''Order Cancelled'',
                      message = ''Your order has been cancelled.'',
                      is_read = False, created_at_notification = utcnow s3,
                      related_entity_type = order_entity, related_entity_id = oid\<rparr>]\<rparr>)))"

text \<open>The endpoint \<open>read_order\<close> of main.py.\<close>

definition read_order :: "state \<Rightarrow> string \<Rightarrow> int \<Rightarrow> Order result" where
  "read_order s oid current_user_id =
     (case get_order s oid of
        None \<Rightarrow> (Inl (HTTPException 404 ''Order not found or not authorized''), s)
      | Some db_order \<Rightarrow>
          if customer_id db_order \<noteq> Some current_user_id
          then (Inl (HTTPException 404 ''Order not found or not authorized''), s)
          else (Inr db_order, s))"

section \<open>Notification services (services.py)\<close>

definition mark_notification_as_read :: "state \<Rightarrow> string \<Rightarrow> int \<Rightarrow> string result" where
  "mark_notification_as_read s nid uid =
     (case find (\<lambda>n. notification_id n = nid \<and> user_id n = uid) (notifications s) of
        None \<Rightarrow> (Inl (HTTPException 404 ''Notification not found or not authorized''), s)
      | Some db_notification \<Rightarrow>
          (Inr ''Notification marked as read'',
           s\<lparr>notifications :=
                update_first (\<lambda>n. notification_id n = nid \<and> user_id n = uid)
                  (\<lambda>n. n\<lparr>is_read := True\<rparr>) (notifications s)\<rparr>))"

definition delete_notification :: "state \<Rightarrow> string \<Rightarrow> int \<Rightarrow> string result" where
  "delete_notification s nid uid =
     (case find (\<lambda>n. notification_id n = nid \<and> user_id n = uid) (notifications s) of
        None \<Rightarrow> (Inl (HTTPException 404 ''Notification not found or not authorized''), s)
      | Some db_notification \<Rightarrow>
          (Inr ''Notification deleted'',
           s\<lparr>notifications := remove1 db_notification (notifications s)\<rparr>))"

section \<open>Sequences of requests\<close>

text \<open>
  The workflow operations as requests against the session. Between two requests the clock
  may move: each request comes with the time at which it is served. A run is \<open>None\<close>
  when one of its requests never returns.
\<close>

datatype request =
    PlaceOrder OrderCreate int
  | CancelOrder string int
  | UpdateStatus string int OrderStatus
  | CreateListing SurpriseBagCreate int
  | UpdateListing int int SurpriseBagCreate
  | DeleteListing int int

fun serve :: "state \<Rightarrow> request \<Rightarrow> state option" where
  "serve s (PlaceOrder ord cid) = map_option snd (create_order s ord cid)"
| "serve s (CancelOrder oid cid) = Some (snd (delete_order s oid cid))"
| "serve s (UpdateStatus oid cid st) = Some (snd (update_order_status s oid cid st))"
| "serve s (CreateListing bag bid) = Some (snd (create_surprise_bag s bag bid))"
| "serve s (UpdateListing bid business bag) = Some (snd (update_surprise_bag s bid business bag))"
| "serve s (DeleteListing bid business) = Some (snd (delete_surprise_bag s bid business))"

fun run :: "state \<Rightarrow> (int \<times> request) list \<Rightarrow> state option" where
  "run s [] = Some s"
| "run s ((t, q) # qs) =
     (case serve (s\<lparr>utcnow := t\<rparr>) q of None \<Rightarrow> None | Some s1 \<Rightarrow> run s1 qs)"

section \<open>Predicates of the specification\<close>

text \<open>A candidate pickup code is taken when the query of the retry loop finds an order.\<close>

definition taken :: "state \<Rightarrow> string \<Rightarrow> bool" where
  "taken s code = (find (\<lambda>r. pickup_code r = code) (orders s) \<noteq> None)"

text \<open>The candidates the retry loop looks at, in order: the one it starts with, then the
  first eight characters of each further UUID.\<close>

definition candidate :: "state \<Rightarrow> string \<Rightarrow> nat \<Rightarrow> string" where
  "candidate s code k = (if k = 0 then code else take 8 (uuid_gen s (uuid_pos s + (k - 1))))"

text \<open>The inventory invariant of one listing and of the listing table.\<close>

definition capacity_ok :: "SurpriseBag \<Rightarrow> bool" where
  "capacity_ok b = (0 \<le> quantity_sold b \<and> quantity_sold b \<le> quantity_available b)"

definition capacity_invariant :: "state \<Rightarrow> bool" where
  "capacity_invariant s = list_all capacity_ok (surprise_bags s)"

text \<open>The number of pending orders on a listing.\<close>

definition pending_on :: "Order list \<Rightarrow> int \<Rightarrow> int" where
  "pending_on os bid = int (length (filter (\<lambda>r. bag_id r = bid \<and> status r = pending) os))"

text \<open>
  A valid session: listing ids are the distinct values the autoincrement counter has handed
  out, every order is on a listing of the table (the foreign key \<open>orders.bag_id\<close>), and
  every listing has sold at least its pending orders and at most its capacity.
\<close>

definition valid_state :: "state \<Rightarrow> bool" where
  "valid_state s =
     (distinct (map id_bag (surprise_bags s)) \<and>
      list_all (\<lambda>b. id_bag b \<le> bag_id_seq s) (surprise_bags s) \<and>
      list_all (\<lambda>r. bag_id r \<in> set (map id_bag (surprise_bags s))) (orders s) \<and>
      list_all (\<lambda>b. pending_on (orders s) (id_bag b) \<le> quantity_sold b \<and>
                     quantity_sold b \<le> quantity_available b) (surprise_bags s))"

text \<open>
  The requests under which the inventory invariant is kept: a listing request obeys the
  schema (\<open>quantity_available: int = Field(..., ge=0)\<close>), a listing update does not put the
  capacity below what is sold, and a status update does not turn an order that is not
  pending into a pending one.
\<close>

fun keeps_capacity :: "state \<Rightarrow> request \<Rightarrow> bool" where
  "keeps_capacity s (CreateListing bag bid) = (0 \<le> quantity_available_in bag)"
| "keeps_capacity s (UpdateListing bid business bag) =
     (case find (\<lambda>b. id_bag b = bid \<and> business_id b = business) (surprise_bags s) of
        None \<Rightarrow> True
      | Some b \<Rightarrow> quantity_sold b \<le> quantity_available_in bag)"
| "keeps_capacity s (UpdateStatus oid cid st) =
     (case find (\<lambda>r. order_id r = oid \<and> customer_id r = Some cid) (orders s) of
        None \<Rightarrow> True
      | Some r \<Rightarrow> st \<noteq> pending \<or> status r = pending)"
| "keeps_capacity s q = True"

fun keeps_capacity_run :: "state \<Rightarrow> (int \<times> request) list \<Rightarrow> bool" where
  "keeps_capacity_run s [] = True"
| "keeps_capacity_run s ((t, q) # qs) =
     (keeps_capacity (s\<lparr>utcnow := t\<rparr>) q \<and>
      (case serve (s\<lparr>utcnow := t\<rparr>) q of None \<Rightarrow> True | Some s1 \<Rightarrow> keeps_capacity_run s1 qs))"

text \<open>
  The outcome of \<open>create_order\<close> in closed form, for the run whose retry loop stops at the
  UUID number \<open>k\<close> after the current position: that UUID gives the pickup code, the next
  one the order id, the one after it the notification id.
\<close>

definition placed_order :: "state \<Rightarrow> OrderCreate \<Rightarrow> int \<Rightarrow> nat \<Rightarrow> Order" where
  "placed_order s ord cid k =
     \<lparr>order_id = uuid_gen s (uuid_pos s + k + 1), customer_id = Some cid,
      bag_id = bag_id_in ord, total_price = numeric_10_2 s (total_price_in ord),
      status = pending, created_at_order = utcnow s, updated_at = utcnow s,
      pickup_code = take 8 (uuid_gen s (uuid_pos s + k)), rating = None, feedback = None\<rparr>"

definition placed_notification :: "state \<Rightarrow> SurpriseBag \<Rightarrow> int \<Rightarrow> nat \<Rightarrow> Notification" where
  "placed_notification s b cid k =
     \<lparr>notification_id = uuid_gen s (uuid_pos s + k + 2), user_id = cid,
      type_notification = order_confirmation, title_notification = ''Order Confirmed!'',
      message = ''Your order for '' @ [CHR 0x27] @ title b @ [CHR 0x27]
        @ '' has been placed. Pickup code: '' @ take 8 (uuid_gen s (uuid_pos s + k)),
      is_read = False, created_at_notification = utcnow s,
      related_entity_type = order_entity,
      related_entity_id = uuid_gen s (uuid_pos s + k + 1)\<rparr>"

definition placed_state :: "state \<Rightarrow> SurpriseBag \<Rightarrow> OrderCreate \<Rightarrow> int \<Rightarrow> nat \<Rightarrow> state" where
  "placed_state s b ord cid k =
     s\<lparr>surprise_bags :=
         update_first (\<lambda>b. id_bag b = bag_id_in ord)
           (\<lambda>b. b\<lparr>quantity_sold := quantity_sold b + 1\<rparr>) (surprise_bags s),
       orders := orders s @ [placed_order s ord cid k],
       notifications := notifications s @ [placed_notification s b cid k],
       uuid_pos := uuid_pos s + k + 3\<rparr>"

section \<open>A concrete session\<close>

text \<open>
  The scenario of the specification after its first order: business 10 has listed one bag
  with a single unit, customer 20 has ordered it, and the order is pending.
\<close>

definition demo_uuid :: "nat \<Rightarrow> string" where
  "demo_uuid n =
     (if n = 0 then ''aaaaaaaa-0000-4000-8000-000000000000''
      else if n = 1 then ''aaaaaaaa-1111-4111-8111-111111111111''
      else if n = 2 then ''bbbbbbbb-2222-4222-8222-222222222222''
      else if n = 3 then ''cccccccc-3333-4333-8333-333333333333''
      else ''dddddddd-4444-4444-8444-444444444444'')"

text \<open>A price column that rounds to the nearest hundredth.\<close>

definition demo_numeric :: "real \<Rightarrow> real" where
  "demo_numeric x = of_int (round (100 * x)) / 100"

definition demo_customer :: User where
  "demo_customer =
     \<lparr>id_user = 20, email = ''c@example.org'', password_hash = ''x'', name = ''C'',
      phone = None, created_at_user = 0, is_active_user = True, role = customer\<rparr>"

definition demo_business :: BusinessOwner where
  "demo_business =
     \<lparr>owner_id = 10, business_name = ''Bakery'', business_description = None,
      address = ''Main St'', logo_url = None, registration_date = 0,
      business_hours = None, is_verified = False, created_at_business = 0\<rparr>"

definition demo_bag :: SurpriseBag where
  "demo_bag =
     \<lparr>id_bag = 1, business_id = 10, title = ''Bread'', description = ''Surplus'',
      contents = None, original_price = 10, discount_price = 5,
      quantity_available = 1, quantity_sold = 1, pickup_start = 100, pickup_end = 200,
      created_at_bag = 1, image_urls = None, is_active_bag = True\<rparr>"

definition demo_order :: Order where
  "demo_order =
     \<lparr>order_id = ''eeeeeeee-5555-4555-8555-555555555555'', customer_id = Some 20,
      bag_id = 1, total_price = 5, status = pending, created_at_order = 2,
      updated_at = 2, pickup_code = ''aaaaaaaa'', rating = None, feedback = None\<rparr>"

definition demo_notification :: Notification where
  "demo_notification =
     \<lparr>notification_id = ''ffffffff-6666-4666-8666-666666666666'', user_id = 20,
      type_notification = order_confirmation, title_notification = ''Order Confirmed!'',
      message = ''Your order for '' @ [CHR 0x27] @ ''Bread'' @ [CHR 0x27]
        @ '' has been placed. Pickup code: aaaaaaaa'',
      is_read = False, created_at_notification = 2,
      related_entity_type = order_entity,
      related_entity_id = ''eeeeeeee-5555-4555-8555-555555555555''\<rparr>"

definition demo_state :: state where
  "demo_state =
     \<lparr>users = [demo_customer], business_owners = [demo_business],
      surprise_bags = [demo_bag], orders = [demo_order],
      notifications = [demo_notification], bag_id_seq = 1,
      uuid_gen = demo_uuid, uuid_pos = 0, utcnow = 3, numeric_10_2 = demo_numeric\<rparr>"

text \<open>The same session with a second unit on the listing, so that an order can be placed.\<close>

definition demo_open :: state where
  "demo_open = demo_state\<lparr>surprise_bags := [demo_bag\<lparr>quantity_available := 2\<rparr>]\<rparr>"

text \<open>The open session with a UUID source that repeats one value.\<close>

definition demo_stuck :: state where
  "demo_stuck = demo_open\<lparr>uuid_gen := (\<lambda>n. ''aaaaaaaa-0000-4000-8000-000000000000'')\<rparr>"

text \<open>The sold-out session with a UUID source that repeats one value.\<close>

definition demo_repeat :: state where
  "demo_repeat = demo_state\<lparr>uuid_gen := (\<lambda>n. ''aaaaaaaa-0000-4000-8000-000000000000'')\<rparr>"

text \<open>The sold-out session after the listing has been deactivated.\<close>

definition demo_inactive :: state where
  "demo_inactive = demo_state\<lparr>surprise_bags := [demo_bag\<lparr>is_active_bag := False\<rparr>]\<rparr>"

text \<open>Request bodies: a well-formed listing, and one that breaks every rule of creation.\<close>

definition demo_listing :: SurpriseBagCreate where
  "demo_listing =
     \<lparr>title_in = ''Bread'', description_in = ''Surplus'', contents_in = Unset,
      original_price_in = 10, discount_price_in = 5, quantity_available_in = 1,
      pickup_start_in = 100, pickup_end_in = 200, image_urls_in = Unset\<rparr>"

definition demo_bad_listing :: SurpriseBagCreate where
  "demo_bad_listing =
     \<lparr>title_in = ''Bread'', description_in = ''Surplus'', contents_in = Unset,
      original_price_in = 5, discount_price_in = 10, quantity_available_in = 0,
      pickup_start_in = 200, pickup_end_in = 100, image_urls_in = Unset\<rparr>"

text \<open>An order request for the listing, at its discount price.\<close>

definition demo_request :: OrderCreate where
  "demo_request = \<lparr>bag_id_in = 1, total_price_in = 5\<rparr>"

text \<open>An order request that declares a price with four decimals.\<close>

definition demo_precise_request :: OrderCreate where
  "demo_precise_request = \<lparr>bag_id_in = 1, total_price_in = 5.0625\<rparr>"

text \<open>A UUID source whose first \<open>N\<close> values share their first eight characters with the
  pickup code of the existing order.\<close>

definition demo_late :: "nat \<Rightarrow> state" where
  "demo_late N =
     demo_open\<lparr>uuid_gen := (\<lambda>n. if n < N then ''aaaaaaaa-0000-4000-8000-000000000000''
                                else ''bbbbbbbb-2222-4222-8222-222222222222'')\<rparr>"

section \<open>Queries and row updates\<close>

lemma find_update_first_same:
  "(\<And>x. P x \<Longrightarrow> P (f x)) \<Longrightarrow> find P (update_first P f xs) = map_option f (find P xs)"
  by (induction xs) auto

lemma find_update_first_other:
  "(\<And>x. Q (f x) = Q x) \<Longrightarrow> (\<And>x. P x \<Longrightarrow> \<not> Q x) \<Longrightarrow>
   find Q (update_first P f xs) = find Q xs"
  by (induction xs) auto

lemma map_update_first: "(\<And>x. g (f x) = g x) \<Longrightarrow> map g (update_first P f xs) = map g xs"
  by (induction xs) auto

lemmas demo_defs = demo_state_def demo_open_def demo_stuck_def demo_inactive_def demo_bag_def
  demo_order_def demo_notification_def demo_customer_def demo_business_def demo_uuid_def
  demo_listing_def demo_bad_listing_def demo_request_def demo_repeat_def

lemma demo_numeric_values:
  "demo_numeric 5 = 5" "demo_numeric 10 = 10" "demo_numeric 5.0625 = 5.06"
  "demo_numeric (81 / 16) = 253 / 50"
  by (simp_all add: demo_numeric_def round_def floor_eq_iff)

section \<open>Listing creation and update\<close>

text \<open>
  Claim C9, as the code has it. \<open>create_surprise_bag\<close> looks the caller's business profile
  up before it looks at the request. When the profile exists, a request with
  \<open>discount_price >= original_price\<close> is refused with status 400 and the detail about
  the discount price, and a request with \<open>pickup_end <= pickup_start\<close> is refused with status
  400 (with the detail about the pickup times when the prices are in order). In both
  cases the session is returned as it was: no listing is created, no notification emitted.
\<close>

theorem create_surprise_bag_rejects:
  assumes "find (\<lambda>b. owner_id b = bid) (business_owners s) = Some db_business"
    and "discount_price_in bag \<ge> original_price_in bag \<or> pickup_end_in bag \<le> pickup_start_in bag"
  shows "create_surprise_bag s bag bid =
     (Inl (HTTPException 400
        (if discount_price_in bag \<ge> original_price_in bag
         then ''Discount price must be less than original price''
         else ''Pickup end time must be after pickup start time'')), s)"
  using assms by (auto simp: create_surprise_bag_def)

theorem create_surprise_bag_rejects_witness:
  "find (\<lambda>b. owner_id b = 10) (business_owners demo_state) = Some demo_business
   \<and> original_price_in demo_bad_listing \<le> discount_price_in demo_bad_listing
   \<and> create_surprise_bag demo_state demo_bad_listing 10 =
       (Inl (HTTPException 400 ''Discount price must be less than original price''), demo_state)
   \<and> pickup_end_in (demo_listing\<lparr>pickup_end_in := 100\<rparr>)
       \<le> pickup_start_in (demo_listing\<lparr>pickup_end_in := 100\<rparr>)
   \<and> create_surprise_bag demo_state (demo_listing\<lparr>pickup_end_in := 100\<rparr>) 10 =
       (Inl (HTTPException 400 ''Pickup end time must be after pickup start time''), demo_state)"
proof -
  have b: "find (\<lambda>b. owner_id b = 10) (business_owners demo_state) = Some demo_business"
    by (simp add: demo_defs)
  have p: "original_price_in demo_bad_listing \<le> discount_price_in demo_bad_listing"
    by (simp add: demo_defs)
  have q: "pickup_end_in (demo_listing\<lparr>pickup_end_in := 100\<rparr>)
             \<le> pickup_start_in (demo_listing\<lparr>pickup_end_in := 100\<rparr>)"
    by (simp add: demo_defs)
  have nq: "\<not> original_price_in (demo_listing\<lparr>pickup_end_in := 100\<rparr>)
                \<le> discount_price_in (demo_listing\<lparr>pickup_end_in := 100\<rparr>)"
    by (simp add: demo_defs)
  from create_surprise_bag_rejects [OF b disjI1, OF p]
       create_surprise_bag_rejects [OF b disjI2, OF q] b p q nq
  show ?thesis by simp
qed

text \<open>
  Claim C9 as stated, for every request, fails: caller 11 has no business profile, and the
  request with the discount price above the original price is answered with status 404,
  not with a validation error.
\<close>

theorem create_surprise_bag_no_business_counterexample:
  "original_price_in demo_bad_listing \<le> discount_price_in demo_bad_listing
   \<and> create_surprise_bag demo_state demo_bad_listing 11 =
       (Inl (HTTPException 404 ''Business not found''), demo_state)"
  by (simp add: create_surprise_bag_def demo_defs)

lemma update_surprise_bag_stores:
  assumes "find (\<lambda>b. id_bag b = bid \<and> business_id b = business) (surprise_bags s) = Some b"
  shows "update_surprise_bag s bid business u =
           (Inr (store_bag s (apply_update u b)),
            s\<lparr>surprise_bags := update_first (\<lambda>b. id_bag b = bid \<and> business_id b = business)
                 (\<lambda>b. store_bag s (apply_update u b)) (surprise_bags s)\<rparr>)"
    and "find (\<lambda>b. id_bag b = bid \<and> business_id b = business)
           (surprise_bags (snd (update_surprise_bag s bid business u)))
         = Some (store_bag s (apply_update u b))"
  using assms
  by (simp_all add: update_surprise_bag_def find_update_first_same apply_update_def
        store_bag_def)


section \<open>Order status\<close>

lemma update_order_status_found:
  assumes "find (\<lambda>r. order_id r = oid \<and> customer_id r = Some cid) (orders s) = Some r"
  shows "\<exists>n s1. update_order_status s oid cid st =
                 (Inr (r\<lparr>status := st, updated_at := utcnow s\<rparr>), s1)
        \<and> find (\<lambda>r. order_id r = oid \<and> customer_id r = Some cid) (orders s1)
            = Some (r\<lparr>status := st, updated_at := utcnow s\<rparr>)
        \<and> map order_id (orders s1) = map order_id (orders s)
        \<and> surprise_bags s1 = surprise_bags s
        \<and> notifications s1 = notifications s @ [n]
        \<and> type_notification n = order_update \<and> user_id n = cid"
  using assms
  by (simp add: update_order_status_def uuid4_def Let_def find_update_first_same map_update_first)

lemma update_order_status_missing:
  assumes "find (\<lambda>r. order_id r = oid \<and> customer_id r = Some cid) (orders s) = None"
  shows "update_order_status s oid cid st =
          (Inl (HTTPException 404 ''Order not found or not authorized''), s)"
  using assms by (simp add: update_order_status_def)

text \<open>
  Claim C7. When the query for an order with the given id and the caller as customer finds
  the order \<open>r\<close>, \<open>update_order_status\<close> succeeds for every target status, whatever the status
  of \<open>r\<close> is: the stored order is \<open>r\<close> with the given status and with \<open>updated_at\<close> set to the
  clock, no order is added or removed, the listings are untouched, and exactly one
  notification is appended, of type \<open>order_update\<close>, for the caller. The call fails, with
  status 404 and the session unchanged, exactly when no order has that id and that
  customer.
\<close>

theorem update_order_status_any_transition:
  "(find (\<lambda>r. order_id r = oid \<and> customer_id r = Some cid) (orders s) = Some r \<longrightarrow>
      (\<exists>n s1. update_order_status s oid cid st =
                 (Inr (r\<lparr>status := st, updated_at := utcnow s\<rparr>), s1)
        \<and> find (\<lambda>r. order_id r = oid \<and> customer_id r = Some cid) (orders s1)
            = Some (r\<lparr>status := st, updated_at := utcnow s\<rparr>)
        \<and> map order_id (orders s1) = map order_id (orders s)
        \<and> surprise_bags s1 = surprise_bags s
        \<and> notifications s1 = notifications s @ [n]
        \<and> type_notification n = order_update \<and> user_id n = cid))
   \<and> (find (\<lambda>r. order_id r = oid \<and> customer_id r = Some cid) (orders s) = None \<longrightarrow>
        update_order_status s oid cid st =
          (Inl (HTTPException 404 ''Order not found or not authorized''), s))
   \<and> ((\<exists>e. fst (update_order_status s oid cid st) = Inl e)
        = (\<not> (\<exists>r \<in> set (orders s). order_id r = oid \<and> customer_id r = Some cid)))"
proof (intro conjI impI)
  assume "find (\<lambda>r. order_id r = oid \<and> customer_id r = Some cid) (orders s) = Some r"
  then show "\<exists>n s1. update_order_status s oid cid st =
                 (Inr (r\<lparr>status := st, updated_at := utcnow s\<rparr>), s1)
        \<and> find (\<lambda>r. order_id r = oid \<and> customer_id r = Some cid) (orders s1)
            = Some (r\<lparr>status := st, updated_at := utcnow s\<rparr>)
        \<and> map order_id (orders s1) = map order_id (orders s)
        \<and> surprise_bags s1 = surprise_bags s
        \<and> notifications s1 = notifications s @ [n]
        \<and> type_notification n = order_update \<and> user_id n = cid"
    by (rule update_order_status_found)
next
  assume "find (\<lambda>r. order_id r = oid \<and> customer_id r = Some cid) (orders s) = None"
  then show "update_order_status s oid cid st =
          (Inl (HTTPException 404 ''Order not found or not authorized''), s)"
    by (rule update_order_status_missing)
next
  show "(\<exists>e. fst (update_order_status s oid cid st) = Inl e)
        = (\<not> (\<exists>r \<in> set (orders s). order_id r = oid \<and> customer_id r = Some cid))"
  proof (cases "find (\<lambda>r. order_id r = oid \<and> customer_id r = Some cid) (orders s)")
    case None
    from update_order_status_missing [OF None, of st] None show ?thesis
      by (auto simp: find_None_iff)
  next
    case (Some r)
    from update_order_status_found [OF Some, of st] Some show ?thesis
      by (auto simp: find_Some_iff)
  qed
qed

theorem update_order_status_any_transition_witness:
  "find (\<lambda>r. order_id r = order_id demo_order \<and> customer_id r = Some 20)
      (orders (demo_state\<lparr>orders := [demo_order\<lparr>status := cancelled\<rparr>]\<rparr>))
     = Some (demo_order\<lparr>status := cancelled\<rparr>)
   \<and> fst (update_order_status (demo_state\<lparr>orders := [demo_order\<lparr>status := cancelled\<rparr>]\<rparr>)
        (order_id demo_order) 20 pending) = Inr (demo_order\<lparr>status := pending, updated_at := 3\<rparr>)
   \<and> find (\<lambda>r. order_id r = order_id demo_order \<and> customer_id r = Some 21) (orders demo_state) = None
   \<and> update_order_status demo_state (order_id demo_order) 21 completed =
        (Inl (HTTPException 404 ''Order not found or not authorized''), demo_state)"
  using update_order_status_any_transition
    [of "order_id demo_order" 20 "demo_state\<lparr>orders := [demo_order\<lparr>status := cancelled\<rparr>]\<rparr>"
        "demo_order\<lparr>status := cancelled\<rparr>" pending]
    update_order_status_any_transition [of "order_id demo_order" 21 demo_state demo_order completed]
  by (auto simp: demo_defs)

section \<open>Ownership checks\<close>

lemma find_by_key:
  "distinct (map f xs) \<Longrightarrow> n \<in> set xs \<Longrightarrow>
   find (\<lambda>x. f x = f n \<and> Q x) xs = (if Q n then Some n else None)"
proof (induction xs)
  case Nil
  then show ?case by simp
next
  case (Cons x xs)
  show ?case
  proof (cases "x = n")
    case True
    have "f y \<noteq> f n" if "y \<in> set xs" for y
      using that Cons.prems True by (auto simp: image_iff)
    then have "find (\<lambda>x. f x = f n \<and> Q x) xs = None"
      by (auto simp: find_None_iff)
    with True show ?thesis by simp
  next
    case False
    with Cons show ?thesis by auto
  qed
qed

lemma find_key_absent:
  "k \<notin> f ` set xs \<Longrightarrow> find (\<lambda>x. f x = k \<and> Q x) xs = None"
  by (auto simp: find_None_iff)

lemma read_order_found:
  assumes "get_order s oid = Some r"
  shows "(read_order s oid c = (Inr r, s)) = (customer_id r = Some c)"
    and "customer_id r \<noteq> Some c \<Longrightarrow>
         read_order s oid c = (Inl (HTTPException 404 ''Order not found or not authorized''), s)"
  using assms by (auto simp: read_order_def)

lemma notification_owner:
  assumes "distinct (map notification_id (notifications s))" and "n \<in> set (notifications s)"
  shows "(\<exists>s1. mark_notification_as_read s (notification_id n) c
                 = (Inr ''Notification marked as read'', s1)) = (user_id n = c)"
    and "(\<exists>s1. delete_notification s (notification_id n) c
                 = (Inr ''Notification deleted'', s1)) = (user_id n = c)"
    and "user_id n \<noteq> c \<Longrightarrow>
           mark_notification_as_read s (notification_id n) c
             = (Inl (HTTPException 404 ''Notification not found or not authorized''), s)
         \<and> delete_notification s (notification_id n) c
             = (Inl (HTTPException 404 ''Notification not found or not authorized''), s)"
  using find_by_key [OF assms, of "\<lambda>x. user_id x = c"]
  by (auto simp: mark_notification_as_read_def delete_notification_def)

lemma notification_absent:
  assumes "nid \<notin> notification_id ` set (notifications s)"
  shows "mark_notification_as_read s nid c
             = (Inl (HTTPException 404 ''Notification not found or not authorized''), s)
         \<and> delete_notification s nid c
             = (Inl (HTTPException 404 ''Notification not found or not authorized''), s)"
  using find_key_absent [OF assms, of "\<lambda>x. user_id x = c"]
  by (simp add: mark_notification_as_read_def delete_notification_def)

text \<open>
  Claim C8. \<open>read_order\<close> returns the order with the given id exactly when its customer
  is the caller; for any other caller it raises the 404 that it raises when no order has
  that id. With notification ids unique (the primary key), marking as read and deleting a
  notification succeed exactly when its \<open>user_id\<close> is the caller; for any other caller both
  raise the 404 that they raise for an id no notification has. Every failure returns the
  session unchanged.
\<close>

theorem ownership_is_existence:
  "(get_order s oid = Some r \<longrightarrow>
      ((read_order s oid c = (Inr r, s)) = (customer_id r = Some c))
      \<and> (customer_id r \<noteq> Some c \<longrightarrow>
           read_order s oid c = (Inl (HTTPException 404 ''Order not found or not authorized''), s)))
   \<and> (get_order s oid = None \<longrightarrow>
        read_order s oid c = (Inl (HTTPException 404 ''Order not found or not authorized''), s))
   \<and> (distinct (map notification_id (notifications s)) \<and> n \<in> set (notifications s) \<longrightarrow>
        ((\<exists>s1. mark_notification_as_read s (notification_id n) c
                 = (Inr ''Notification marked as read'', s1)) = (user_id n = c))
        \<and> ((\<exists>s1. delete_notification s (notification_id n) c
                 = (Inr ''Notification deleted'', s1)) = (user_id n = c))
        \<and> (user_id n \<noteq> c \<longrightarrow>
             mark_notification_as_read s (notification_id n) c
               = (Inl (HTTPException 404 ''Notification not found or not authorized''), s)
             \<and> delete_notification s (notification_id n) c
               = (Inl (HTTPException 404 ''Notification not found or not authorized''), s)))
   \<and> (nid \<notin> notification_id ` set (notifications s) \<longrightarrow>
        mark_notification_as_read s nid c
          = (Inl (HTTPException 404 ''Notification not found or not authorized''), s)
        \<and> delete_notification s nid c
          = (Inl (HTTPException 404 ''Notification not found or not authorized''), s))"
  using read_order_found [of s oid r c] notification_owner [of s n c] notification_absent [of nid s c]
  by (auto simp: read_order_def)

theorem ownership_is_existence_witness:
  "get_order demo_state (order_id demo_order) = Some demo_order
   \<and> read_order demo_state (order_id demo_order) 20 = (Inr demo_order, demo_state)
   \<and> read_order demo_state (order_id demo_order) 21
       = (Inl (HTTPException 404 ''Order not found or not authorized''), demo_state)
   \<and> get_order demo_state ''no-such-order'' = None
   \<and> read_order demo_state ''no-such-order'' 20
       = (Inl (HTTPException 404 ''Order not found or not authorized''), demo_state)
   \<and> distinct (map notification_id (notifications demo_state))
   \<and> demo_notification \<in> set (notifications demo_state)
   \<and> (\<exists>s1. mark_notification_as_read demo_state (notification_id demo_notification) 20
                 = (Inr ''Notification marked as read'', s1))
   \<and> (\<exists>s1. delete_notification demo_state (notification_id demo_notification) 20
                 = (Inr ''Notification deleted'', s1))
   \<and> mark_notification_as_read demo_state (notification_id demo_notification) 21
        = (Inl (HTTPException 404 ''Notification not found or not authorized''), demo_state)
   \<and> delete_notification demo_state (notification_id demo_notification) 21
        = (Inl (HTTPException 404 ''Notification not found or not authorized''), demo_state)
   \<and> ''no-such-notification'' \<notin> notification_id ` set (notifications demo_state)
   \<and> mark_notification_as_read demo_state ''no-such-notification'' 20
        = (Inl (HTTPException 404 ''Notification not found or not authorized''), demo_state)"
proof -
  have g: "get_order demo_state (order_id demo_order) = Some demo_order"
    and g0: "get_order demo_state ''no-such-order'' = None"
    and d: "distinct (map notification_id (notifications demo_state))"
    and m: "demo_notification \<in> set (notifications demo_state)"
    and a: "''no-such-notification'' \<notin> notification_id ` set (notifications demo_state)"
    and u: "user_id demo_notification = 20" "customer_id demo_order = Some 20"
    by (simp_all add: get_order_def demo_defs)
  from ownership_is_existence [of demo_state "order_id demo_order" demo_order 20 demo_notification
         "''no-such-notification''"]
       ownership_is_existence [of demo_state "order_id demo_order" demo_order 21 demo_notification
         "''no-such-notification''"]
       ownership_is_existence [of demo_state "''no-such-order''" demo_order 20 demo_notification
         "''no-such-notification''"]
       g g0 d m a u
  show ?thesis by simp
qed

section \<open>Cancelling an order\<close>

lemma get_surprise_bag_update_other:
  "bid' \<noteq> bid \<Longrightarrow>
   find (\<lambda>b. id_bag b = bid')
     (update_first (\<lambda>b. id_bag b = bid) (\<lambda>b. b\<lparr>quantity_sold := g b\<rparr>) bags)
   = find (\<lambda>b. id_bag b = bid') bags"
  by (rule find_update_first_other) auto

lemma delete_order_not_pending:
  assumes "find (\<lambda>r. order_id r = oid \<and> customer_id r = Some cid) (orders s) = Some r"
    and "status r \<noteq> pending"
  shows "delete_order s oid cid = (Inl (HTTPException 400 ''Can only delete pending orders''), s)"
  using assms by (simp add: delete_order_def)

lemma delete_order_pending:
  assumes "find (\<lambda>r. order_id r = oid \<and> customer_id r = Some cid) (orders s) = Some r"
    and "status r = pending"
  shows "\<exists>n s1. delete_order s oid cid = (Inr ''Order cancelled'', s1)
        \<and> find (\<lambda>r. order_id r = oid \<and> customer_id r = Some cid) (orders s1)
            = Some (r\<lparr>status := cancelled, updated_at := utcnow s\<rparr>)
        \<and> map order_id (orders s1) = map order_id (orders s)
        \<and> (case get_surprise_bag s (bag_id r) of
             None \<Rightarrow> surprise_bags s1 = surprise_bags s
           | Some b \<Rightarrow> get_surprise_bag s1 (bag_id r)
                        = Some (b\<lparr>quantity_sold := quantity_sold b - 1\<rparr>))
        \<and> (\<forall>bid. bid \<noteq> bag_id r \<longrightarrow> get_surprise_bag s1 bid = get_surprise_bag s bid)
        \<and> notifications s1 = notifications s @ [n]
        \<and> type_notification n = order_update \<and> user_id n = cid
        \<and> title_notification n = ''Order Cancelled''"
  using assms
  by (cases "get_surprise_bag s (bag_id r)")
     (simp_all add: delete_order_def uuid4_def Let_def get_surprise_bag_def
        find_update_first_same get_surprise_bag_update_other map_update_first)

text \<open>
  Claim C5. Let \<open>r\<close> be the order the query of \<open>delete_order\<close> finds for the given id and
  the calling customer. If the status of \<open>r\<close> is not \<open>pending\<close>, the call raises status
  400 and returns the session unchanged: the order and every listing are as before. If it
  is \<open>pending\<close>, the call succeeds: the stored order is \<open>r\<close> with status \<open>cancelled\<close> and
  \<open>updated_at\<close> set to the clock, the listing of the order (when the table has it) has its
  \<open>quantity_sold\<close> lowered by one, every other listing is as before, and one notification is
  appended, of type \<open>order_update\<close>, titled "Order Cancelled", for the caller.
\<close>

theorem delete_order_only_pending:
  assumes "find (\<lambda>r. order_id r = oid \<and> customer_id r = Some cid) (orders s) = Some r"
  shows "(status r \<noteq> pending \<longrightarrow>
            delete_order s oid cid = (Inl (HTTPException 400 ''Can only delete pending orders''), s))
   \<and> (status r = pending \<longrightarrow>
        (\<exists>n s1. delete_order s oid cid = (Inr ''Order cancelled'', s1)
        \<and> find (\<lambda>r. order_id r = oid \<and> customer_id r = Some cid) (orders s1)
            = Some (r\<lparr>status := cancelled, updated_at := utcnow s\<rparr>)
        \<and> map order_id (orders s1) = map order_id (orders s)
        \<and> (case get_surprise_bag s (bag_id r) of
             None \<Rightarrow> surprise_bags s1 = surprise_bags s
           | Some b \<Rightarrow> get_surprise_bag s1 (bag_id r)
                        = Some (b\<lparr>quantity_sold := quantity_sold b - 1\<rparr>))
        \<and> (\<forall>bid. bid \<noteq> bag_id r \<longrightarrow> get_surprise_bag s1 bid = get_surprise_bag s bid)
        \<and> notifications s1 = notifications s @ [n]
        \<and> type_notification n = order_update \<and> user_id n = cid
        \<and> title_notification n = ''Order Cancelled''))"
  using delete_order_not_pending [OF assms] delete_order_pending [OF assms]
  by blast


theorem delete_order_only_pending_witness:
  "find (\<lambda>r. order_id r = order_id demo_order \<and> customer_id r = Some 20) (orders demo_state)
     = Some demo_order
   \<and> status demo_order = pending
   \<and> fst (delete_order demo_state (order_id demo_order) 20) = Inr ''Order cancelled''
   \<and> get_surprise_bag (snd (delete_order demo_state (order_id demo_order) 20)) 1
       = Some (demo_bag\<lparr>quantity_sold := 0\<rparr>)
   \<and> find (\<lambda>r. order_id r = order_id demo_order \<and> customer_id r = Some 20)
        (orders (demo_state\<lparr>orders := [demo_order\<lparr>status := confirmed\<rparr>]\<rparr>))
     = Some (demo_order\<lparr>status := confirmed\<rparr>)
   \<and> status (demo_order\<lparr>status := confirmed\<rparr>) \<noteq> pending
   \<and> delete_order (demo_state\<lparr>orders := [demo_order\<lparr>status := confirmed\<rparr>]\<rparr>)
        (order_id demo_order) 20
       = (Inl (HTTPException 400 ''Can only delete pending orders''),
          demo_state\<lparr>orders := [demo_order\<lparr>status := confirmed\<rparr>]\<rparr>)"
proof -
  have f1: "find (\<lambda>r. order_id r = order_id demo_order \<and> customer_id r = Some 20)
              (orders demo_state) = Some demo_order"
    by (simp add: demo_defs)
  have f2: "find (\<lambda>r. order_id r = order_id demo_order \<and> customer_id r = Some 20)
        (orders (demo_state\<lparr>orders := [demo_order\<lparr>status := confirmed\<rparr>]\<rparr>))
     = Some (demo_order\<lparr>status := confirmed\<rparr>)"
    by (simp add: demo_defs)
  have g: "get_surprise_bag demo_state (bag_id demo_order) = Some demo_bag"
     "bag_id demo_order = 1" "quantity_sold demo_bag = 1" "status demo_order = pending"
    by (simp_all add: get_surprise_bag_def demo_defs)
  from delete_order_only_pending [OF f1] delete_order_only_pending [OF f2] f1 f2 g
  show ?thesis by auto
qed

section \<open>The pickup-code retry loop\<close>

lemma candidate_step:
  "candidate (s\<lparr>uuid_pos := Suc (uuid_pos s)\<rparr>) (take 8 (uuid_gen s (uuid_pos s))) j
     = candidate s code (Suc j)"
  by (cases j) (simp_all add: candidate_def)

lemma taken_uuid_pos [simp]: "taken (s\<lparr>uuid_pos := p\<rparr>) c = taken s c"
  by (simp add: taken_def)

lemma pickup_code_loop_returns:
  "\<not> taken s (candidate s code k) \<Longrightarrow> (\<forall>j<k. taken s (candidate s code j)) \<Longrightarrow>
   pickup_code_loop s code = Some (candidate s code k, s\<lparr>uuid_pos := uuid_pos s + k\<rparr>)"
proof (induction k arbitrary: s code)
  case 0
  then show ?case
    by (subst pickup_code_loop.simps) (simp add: candidate_def taken_def)
next
  case (Suc k)
  let ?s1 = "s\<lparr>uuid_pos := Suc (uuid_pos s)\<rparr>"
  let ?c1 = "take 8 (uuid_gen s (uuid_pos s))"
  from Suc.prems(2) have t0: "taken s code"
    by (auto simp: candidate_def dest: spec [of _ 0])
  have c: "candidate ?s1 ?c1 j = candidate s code (Suc j)" for j
    by (rule candidate_step)
  have "pickup_code_loop ?s1 ?c1 = Some (candidate ?s1 ?c1 k, ?s1\<lparr>uuid_pos := uuid_pos ?s1 + k\<rparr>)"
  proof (rule Suc.IH)
    show "\<not> taken ?s1 (candidate ?s1 ?c1 k)"
      using Suc.prems(1) by (simp add: c)
    show "\<forall>j<k. taken ?s1 (candidate ?s1 ?c1 j)"
      using Suc.prems(2) by (simp add: c)
  qed
  with t0 show ?case
    by (subst pickup_code_loop.simps) (simp add: c taken_def uuid4_def)
qed

lemma pickup_code_loop_Some:
  assumes "pickup_code_loop s code = Some y"
  shows "\<exists>k. \<not> taken s (candidate s code k) \<and> (\<forall>j<k. taken s (candidate s code j))
       \<and> y = (candidate s code k, s\<lparr>uuid_pos := uuid_pos s + k\<rparr>)"
proof (rule pickup_code_loop.raw_induct
    [where P = "\<lambda>s code y. \<exists>k. \<not> taken s (candidate s code k)
       \<and> (\<forall>j<k. taken s (candidate s code j))
       \<and> y = (candidate s code k, s\<lparr>uuid_pos := uuid_pos s + k\<rparr>)", OF _ assms], goal_cases)
  case (1 loop s code y)
  show ?case
  proof (cases "taken s code")
    case False
    with 1(2) have "y = (code, s)" by (simp add: taken_def)
    with False have "\<not> taken s (candidate s code 0) \<and> (\<forall>j<0. taken s (candidate s code j))
       \<and> y = (candidate s code 0, s\<lparr>uuid_pos := uuid_pos s + 0\<rparr>)"
      by (simp add: candidate_def)
    then show ?thesis by blast
  next
    case True
    let ?s1 = "s\<lparr>uuid_pos := Suc (uuid_pos s)\<rparr>"
    let ?c1 = "take 8 (uuid_gen s (uuid_pos s))"
    from True 1(2) have "loop ?s1 ?c1 = Some y"
      by (simp add: taken_def uuid4_def)
    from 1(1) [OF this] obtain k where k: "\<not> taken ?s1 (candidate ?s1 ?c1 k)"
      "\<forall>j<k. taken ?s1 (candidate ?s1 ?c1 j)"
      "y = (candidate ?s1 ?c1 k, ?s1\<lparr>uuid_pos := uuid_pos ?s1 + k\<rparr>)"
      by blast
    have c: "candidate ?s1 ?c1 j = candidate s code (Suc j)" for j
      by (rule candidate_step)
    have "\<forall>j<Suc k. taken s (candidate s code j)"
    proof (intro allI impI)
      fix j assume "j < Suc k"
      show "taken s (candidate s code j)"
      proof (cases j)
        case 0
        with True show ?thesis by (simp add: candidate_def)
      next
        case (Suc i)
        with \<open>j < Suc k\<close> k(2) show ?thesis by (auto simp: c)
      qed
    qed
    moreover have "\<not> taken s (candidate s code (Suc k))"
      using k(1) by (simp add: c)
    moreover have "y = (candidate s code (Suc k), s\<lparr>uuid_pos := uuid_pos s + Suc k\<rparr>)"
      using k(3) by (simp add: c)
    ultimately show ?thesis by blast
  qed
qed

lemma pickup_code_loop_None:
  "(\<forall>k. taken s (candidate s code k)) \<Longrightarrow> pickup_code_loop s code = None"
  using pickup_code_loop_Some [of s code] by (cases "pickup_code_loop s code") auto

section \<open>Placing an order\<close>

lemma candidate_first:
  "candidate (s\<lparr>uuid_pos := Suc (uuid_pos s)\<rparr>) (take 8 (uuid_gen s (uuid_pos s))) j
     = take 8 (uuid_gen s (uuid_pos s + j))"
  by (cases j) (simp_all add: candidate_def)

lemma create_order_missing:
  "get_surprise_bag s (bag_id_in ord) = None \<Longrightarrow>
   create_order s ord cid
     = Some (Inl (HTTPException 404 ''Surprise bag not found or not available''), s)"
  by (simp add: create_order_def)

lemma create_order_inactive:
  "get_surprise_bag s (bag_id_in ord) = Some b \<Longrightarrow> \<not> is_active_bag b \<Longrightarrow>
   create_order s ord cid
     = Some (Inl (HTTPException 404 ''Surprise bag not found or not available''), s)"
  by (simp add: create_order_def)

lemma create_order_sold_out:
  "get_surprise_bag s (bag_id_in ord) = Some b \<Longrightarrow> is_active_bag b \<Longrightarrow>
   quantity_available b \<le> quantity_sold b \<Longrightarrow>
   create_order s ord cid = Some (Inl (HTTPException 400 ''Surprise bag is sold out''), s)"
  by (simp add: create_order_def)

lemma create_order_enters_loop:
  assumes "get_surprise_bag s (bag_id_in ord) = Some b" and "is_active_bag b"
    and "quantity_sold b < quantity_available b"
  shows "create_order s ord cid =
     (case pickup_code_loop (s\<lparr>uuid_pos := Suc (uuid_pos s)\<rparr>) (take 8 (uuid_gen s (uuid_pos s))) of
        None \<Rightarrow> None
      | Some (code, s1) \<Rightarrow>
          Some (Inr \<lparr>order_id = uuid_gen s1 (uuid_pos s1), customer_id = Some cid,
                     bag_id = bag_id_in ord,
                     total_price = numeric_10_2 s1 (total_price_in ord),
                     status = pending, created_at_order = utcnow s1,
                     updated_at = utcnow s1, pickup_code = code,
                     rating = None, feedback = None\<rparr>,
                s1\<lparr>surprise_bags :=
                     update_first (\<lambda>b. id_bag b = bag_id_in ord)
                       (\<lambda>b. b\<lparr>quantity_sold := quantity_sold b + 1\<rparr>) (surprise_bags s1),
                   orders := orders s1 @
                     [\<lparr>order_id = uuid_gen s1 (uuid_pos s1), customer_id = Some cid,
                       bag_id = bag_id_in ord,
                       total_price = numeric_10_2 s1 (total_price_in ord),
                       status = pending, created_at_order = utcnow s1,
                       updated_at = utcnow s1, pickup_code = code,
                       rating = None, feedback = None\<rparr>],
                   notifications := notifications s1 @
                     [\<lparr>notification_id = uuid_gen s1 (Suc (uuid_pos s1)), user_id = cid,
                       type_notification = order_confirmation,
                       title_notification = ''Order Confirmed!'',
                       message = ''Your order for '' @ [CHR 0x27] @ title b
                         @ [CHR 0x27] @ '' has been placed. Pickup code: '' @ code,
                       is_read = False, created_at_notification = utcnow s1,
                       related_entity_type = order_entity,
                       related_entity_id = uuid_gen s1 (uuid_pos s1)\<rparr>],
                   uuid_pos := Suc (Suc (uuid_pos s1))\<rparr>))"
  using assms
  by (simp add: create_order_def uuid4_def Let_def split: option.split prod.split)

lemma create_order_placed:
  assumes "get_surprise_bag s (bag_id_in ord) = Some b" and "is_active_bag b"
    and "quantity_sold b < quantity_available b"
    and "\<not> taken s (take 8 (uuid_gen s (uuid_pos s + k)))"
    and "\<forall>j<k. taken s (take 8 (uuid_gen s (uuid_pos s + j)))"
  shows "create_order s ord cid = Some (Inr (placed_order s ord cid k), placed_state s b ord cid k)"
proof -
  let ?s0 = "s\<lparr>uuid_pos := Suc (uuid_pos s)\<rparr>"
  let ?c0 = "take 8 (uuid_gen s (uuid_pos s))"
  have "pickup_code_loop ?s0 ?c0
          = Some (candidate ?s0 ?c0 k, ?s0\<lparr>uuid_pos := uuid_pos ?s0 + k\<rparr>)"
    by (rule pickup_code_loop_returns) (use assms(4,5) in \<open>simp_all add: candidate_first\<close>)
  then show ?thesis
    by (simp add: create_order_enters_loop [OF assms(1-3)] candidate_first
          placed_order_def placed_state_def placed_notification_def)
qed

lemma create_order_stuck:
  assumes "get_surprise_bag s (bag_id_in ord) = Some b" and "is_active_bag b"
    and "quantity_sold b < quantity_available b"
    and "\<forall>k. taken s (take 8 (uuid_gen s (uuid_pos s + k)))"
  shows "create_order s ord cid = None"
proof -
  let ?s0 = "s\<lparr>uuid_pos := Suc (uuid_pos s)\<rparr>"
  let ?c0 = "take 8 (uuid_gen s (uuid_pos s))"
  have "pickup_code_loop ?s0 ?c0 = None"
    by (rule pickup_code_loop_None) (use assms(4) in \<open>simp add: candidate_first\<close>)
  then show ?thesis
    by (simp add: create_order_enters_loop [OF assms(1-3)])
qed

lemma create_order_cases:
  assumes "create_order s ord cid = Some (res, s1)"
  shows "(\<exists>e. res = Inl e \<and> s1 = s) \<or>
         (\<exists>b k. get_surprise_bag s (bag_id_in ord) = Some b \<and> is_active_bag b
            \<and> quantity_sold b < quantity_available b
            \<and> \<not> taken s (take 8 (uuid_gen s (uuid_pos s + k)))
            \<and> (\<forall>j<k. taken s (take 8 (uuid_gen s (uuid_pos s + j))))
            \<and> res = Inr (placed_order s ord cid k) \<and> s1 = placed_state s b ord cid k)"
proof (cases "get_surprise_bag s (bag_id_in ord)")
  case None
  with assms show ?thesis by (auto simp: create_order_missing)
next
  case (Some b)
  show ?thesis
  proof (cases "is_active_bag b \<and> quantity_sold b < quantity_available b")
    case False
    show ?thesis
    proof (cases "is_active_bag b")
      case inactive: False
      from create_order_inactive [OF Some inactive, of cid] assms show ?thesis by auto
    next
      case True
      with False have "quantity_available b \<le> quantity_sold b" by simp
      from create_order_sold_out [OF Some True this, of cid] assms show ?thesis by auto
    qed
  next
    case True
    let ?s0 = "s\<lparr>uuid_pos := Suc (uuid_pos s)\<rparr>"
    let ?c0 = "take 8 (uuid_gen s (uuid_pos s))"
    from True have b: "is_active_bag b" "quantity_sold b < quantity_available b" by simp_all
    from assms obtain y where y: "pickup_code_loop ?s0 ?c0 = Some y"
      by (cases "pickup_code_loop ?s0 ?c0")
         (simp_all add: create_order_enters_loop [OF Some b])
    from pickup_code_loop_Some [OF y] obtain k where
      k: "\<not> taken s (take 8 (uuid_gen s (uuid_pos s + k)))"
         "\<forall>j<k. taken s (take 8 (uuid_gen s (uuid_pos s + j)))"
      by (auto simp: candidate_first)
    from create_order_placed [OF Some b k, of cid] assms Some b k show ?thesis
      by auto
  qed
qed


lemma get_surprise_bag_placed:
  assumes "get_surprise_bag s (bag_id_in ord) = Some b"
  shows "get_surprise_bag (placed_state s b ord cid k) (bag_id_in ord)
           = Some (b\<lparr>quantity_sold := quantity_sold b + 1\<rparr>)"
    and "bid \<noteq> bag_id_in ord \<Longrightarrow>
         get_surprise_bag (placed_state s b ord cid k) bid = get_surprise_bag s bid"
  using assms
  by (simp_all add: get_surprise_bag_def placed_state_def find_update_first_same
        get_surprise_bag_update_other)

lemma create_order_success:
  assumes "get_surprise_bag s (bag_id_in ord) = Some b" and "is_active_bag b"
    and "quantity_sold b < quantity_available b"
    and "\<exists>k. \<not> taken s (take 8 (uuid_gen s (uuid_pos s + k)))"
  shows "\<exists>r n s1. create_order s ord cid = Some (Inr r, s1)
           \<and> get_surprise_bag s1 (bag_id_in ord) = Some (b\<lparr>quantity_sold := quantity_sold b + 1\<rparr>)
           \<and> (\<forall>bid. bid \<noteq> bag_id_in ord \<longrightarrow> get_surprise_bag s1 bid = get_surprise_bag s bid)
           \<and> orders s1 = orders s @ [r]
           \<and> status r = pending
           \<and> total_price r = numeric_10_2 s (total_price_in ord)
           \<and> customer_id r = Some cid \<and> bag_id r = bag_id_in ord
           \<and> notifications s1 = notifications s @ [n]
           \<and> type_notification n = order_confirmation \<and> user_id n = cid
           \<and> message n = ''Your order for '' @ [CHR 0x27] @ title b @ [CHR 0x27]
                 @ '' has been placed. Pickup code: '' @ pickup_code r
           \<and> sublist (pickup_code r) (message n)"
proof -
  from assms(4) obtain k where k: "\<not> taken s (take 8 (uuid_gen s (uuid_pos s + k)))"
    "\<forall>j<k. taken s (take 8 (uuid_gen s (uuid_pos s + j)))"
    using exists_least_iff [of "\<lambda>k. \<not> taken s (take 8 (uuid_gen s (uuid_pos s + k)))"]
    by auto
  let ?r = "placed_order s ord cid k" and ?n = "placed_notification s b cid k"
  let ?s1 = "placed_state s b ord cid k"
  have 1: "create_order s ord cid = Some (Inr ?r, ?s1)"
    by (rule create_order_placed [OF assms(1-3) k])
  have 2: "get_surprise_bag ?s1 (bag_id_in ord) = Some (b\<lparr>quantity_sold := quantity_sold b + 1\<rparr>)"
    "\<forall>bid. bid \<noteq> bag_id_in ord \<longrightarrow> get_surprise_bag ?s1 bid = get_surprise_bag s bid"
    using get_surprise_bag_placed [OF assms(1)] by simp_all
  have 3: "orders ?s1 = orders s @ [?r]" "notifications ?s1 = notifications s @ [?n]"
    by (simp_all add: placed_state_def)
  have 4: "status ?r = pending" "total_price ?r = numeric_10_2 s (total_price_in ord)"
    "customer_id ?r = Some cid" "bag_id ?r = bag_id_in ord"
    by (simp_all add: placed_order_def)
  have 5: "type_notification ?n = order_confirmation" "user_id ?n = cid"
    by (simp_all add: placed_notification_def)
  have 6: "message ?n = ''Your order for '' @ [CHR 0x27] @ title b @ [CHR 0x27]
                 @ '' has been placed. Pickup code: '' @ pickup_code ?r"
    by (simp add: placed_notification_def placed_order_def)
  have 7: "sublist (pickup_code ?r) (message ?n)"
    unfolding 6 by (intro sublist_appendI suffix_imp_sublist) (simp add: suffix_def)
  from 1 2 3 4 5 6 7 show ?thesis by blast
qed

text \<open>
  Claim C1, as the code has it. \<open>create_order\<close> raises status 404 and leaves the session
  unchanged when no listing has the requested id or the listing is not active; it raises
  status 400 ("sold out") and leaves the session unchanged when the listing is active and
  \<open>quantity_available <= quantity_sold\<close>. Otherwise it enters the retry loop. If one of the
  UUIDs to come gives a pickup code no order has, it returns: the listing has
  \<open>quantity_sold\<close> raised by one, every other listing is as before, one order is appended,
  with status \<open>pending\<close>, the caller as customer, the requested listing, and as
  \<open>total_price\<close> what the \<open>Numeric(10, 2)\<close> column makes of the declared price, and one
  notification is appended, of type \<open>order_confirmation\<close>, for the caller, whose message
  ends with the pickup code of the order. If every UUID to come gives a pickup code some
  order has, it does not return.
\<close>

theorem create_order_spec:
  "(get_surprise_bag s (bag_id_in ord) = None
      \<or> (\<exists>b. get_surprise_bag s (bag_id_in ord) = Some b \<and> \<not> is_active_bag b)
      \<longrightarrow> create_order s ord cid
            = Some (Inl (HTTPException 404 ''Surprise bag not found or not available''), s))
   \<and> (get_surprise_bag s (bag_id_in ord) = Some b \<and> is_active_bag b
        \<and> quantity_available b \<le> quantity_sold b
      \<longrightarrow> create_order s ord cid = Some (Inl (HTTPException 400 ''Surprise bag is sold out''), s))
   \<and> (get_surprise_bag s (bag_id_in ord) = Some b \<and> is_active_bag b
        \<and> quantity_sold b < quantity_available b
        \<and> (\<exists>k. \<not> taken s (take 8 (uuid_gen s (uuid_pos s + k))))
      \<longrightarrow> (\<exists>r n s1. create_order s ord cid = Some (Inr r, s1)
           \<and> get_surprise_bag s1 (bag_id_in ord) = Some (b\<lparr>quantity_sold := quantity_sold b + 1\<rparr>)
           \<and> (\<forall>bid. bid \<noteq> bag_id_in ord \<longrightarrow> get_surprise_bag s1 bid = get_surprise_bag s bid)
           \<and> orders s1 = orders s @ [r]
           \<and> status r = pending
           \<and> total_price r = numeric_10_2 s (total_price_in ord)
           \<and> customer_id r = Some cid \<and> bag_id r = bag_id_in ord
           \<and> notifications s1 = notifications s @ [n]
           \<and> type_notification n = order_confirmation \<and> user_id n = cid
           \<and> message n = ''Your order for '' @ [CHR 0x27] @ title b @ [CHR 0x27]
                 @ '' has been placed. Pickup code: '' @ pickup_code r
           \<and> sublist (pickup_code r) (message n)))
   \<and> (get_surprise_bag s (bag_id_in ord) = Some b \<and> is_active_bag b
        \<and> quantity_sold b < quantity_available b
        \<and> (\<forall>k. taken s (take 8 (uuid_gen s (uuid_pos s + k))))
      \<longrightarrow> create_order s ord cid = None)"
proof (intro conjI impI)
  assume "get_surprise_bag s (bag_id_in ord) = None
      \<or> (\<exists>b. get_surprise_bag s (bag_id_in ord) = Some b \<and> \<not> is_active_bag b)"
  then show "create_order s ord cid
            = Some (Inl (HTTPException 404 ''Surprise bag not found or not available''), s)"
    using create_order_missing create_order_inactive by blast
next
  assume "get_surprise_bag s (bag_id_in ord) = Some b \<and> is_active_bag b
        \<and> quantity_available b \<le> quantity_sold b"
  then show "create_order s ord cid = Some (Inl (HTTPException 400 ''Surprise bag is sold out''), s)"
    using create_order_sold_out by blast
next
  assume a: "get_surprise_bag s (bag_id_in ord) = Some b \<and> is_active_bag b
        \<and> quantity_sold b < quantity_available b
        \<and> (\<exists>k. \<not> taken s (take 8 (uuid_gen s (uuid_pos s + k))))"
  then have "get_surprise_bag s (bag_id_in ord) = Some b" "is_active_bag b"
    "quantity_sold b < quantity_available b"
    "\<exists>k. \<not> taken s (take 8 (uuid_gen s (uuid_pos s + k)))"
    by blast+
  then show "\<exists>r n s1. create_order s ord cid = Some (Inr r, s1)
           \<and> get_surprise_bag s1 (bag_id_in ord) = Some (b\<lparr>quantity_sold := quantity_sold b + 1\<rparr>)
           \<and> (\<forall>bid. bid \<noteq> bag_id_in ord \<longrightarrow> get_surprise_bag s1 bid = get_surprise_bag s bid)
           \<and> orders s1 = orders s @ [r]
           \<and> status r = pending
           \<and> total_price r = numeric_10_2 s (total_price_in ord)
           \<and> customer_id r = Some cid \<and> bag_id r = bag_id_in ord
           \<and> notifications s1 = notifications s @ [n]
           \<and> type_notification n = order_confirmation \<and> user_id n = cid
           \<and> message n = ''Your order for '' @ [CHR 0x27] @ title b @ [CHR 0x27]
                 @ '' has been placed. Pickup code: '' @ pickup_code r
           \<and> sublist (pickup_code r) (message n)"
    by (rule create_order_success)
next
  assume "get_surprise_bag s (bag_id_in ord) = Some b \<and> is_active_bag b
        \<and> quantity_sold b < quantity_available b
        \<and> (\<forall>k. taken s (take 8 (uuid_gen s (uuid_pos s + k))))"
  then show "create_order s ord cid = None"
    by (simp add: create_order_stuck)
qed

lemma demo_bags:
  "get_surprise_bag demo_state 1 = Some demo_bag"
  "get_surprise_bag demo_state 2 = None"
  "get_surprise_bag demo_open 1 = Some (demo_bag\<lparr>quantity_available := 2\<rparr>)"
  "get_surprise_bag demo_stuck 1 = Some (demo_bag\<lparr>quantity_available := 2\<rparr>)"
  "get_surprise_bag demo_inactive 1 = Some (demo_bag\<lparr>is_active_bag := False\<rparr>)"
  "get_surprise_bag demo_repeat 1 = Some demo_bag"
  by (simp_all add: get_surprise_bag_def demo_defs)

lemma demo_taken:
  "taken demo_open c = (c = ''aaaaaaaa'')"
  "taken demo_stuck c = (c = ''aaaaaaaa'')"
  "taken demo_state c = (c = ''aaaaaaaa'')"
  "taken demo_repeat c = (c = ''aaaaaaaa'')"
  by (auto simp: taken_def demo_defs)

lemma demo_open_bag:
  "get_surprise_bag demo_open (bag_id_in demo_request) = Some (demo_bag\<lparr>quantity_available := 2\<rparr>)"
  "get_surprise_bag demo_open (bag_id_in demo_precise_request)
     = Some (demo_bag\<lparr>quantity_available := 2\<rparr>)"
  "get_surprise_bag demo_stuck (bag_id_in demo_request) = Some (demo_bag\<lparr>quantity_available := 2\<rparr>)"
  "is_active_bag (demo_bag\<lparr>quantity_available := 2\<rparr>)"
  "quantity_sold (demo_bag\<lparr>quantity_available := 2\<rparr>)
     < quantity_available (demo_bag\<lparr>quantity_available := 2\<rparr>)"
  by (simp_all add: demo_bags demo_request_def demo_precise_request_def)
     (simp_all add: demo_bag_def)

lemma demo_stuck_taken:
  "\<forall>k. taken demo_stuck (take 8 (uuid_gen demo_stuck (uuid_pos demo_stuck + k)))"
  by (simp add: demo_taken) (simp add: demo_defs)

theorem create_order_spec_witness:
  "get_surprise_bag demo_state (bag_id_in (demo_request\<lparr>bag_id_in := 2\<rparr>)) = None
   \<and> create_order demo_state (demo_request\<lparr>bag_id_in := 2\<rparr>) 21
       = Some (Inl (HTTPException 404 ''Surprise bag not found or not available''), demo_state)
   \<and> get_surprise_bag demo_state (bag_id_in demo_request) = Some demo_bag
   \<and> is_active_bag demo_bag \<and> quantity_available demo_bag \<le> quantity_sold demo_bag
   \<and> create_order demo_state demo_request 21
       = Some (Inl (HTTPException 400 ''Surprise bag is sold out''), demo_state)
   \<and> get_surprise_bag demo_open (bag_id_in demo_request) = Some (demo_bag\<lparr>quantity_available := 2\<rparr>)
   \<and> quantity_sold (demo_bag\<lparr>quantity_available := 2\<rparr>)
        < quantity_available (demo_bag\<lparr>quantity_available := 2\<rparr>)
   \<and> (\<exists>k. \<not> taken demo_open (take 8 (uuid_gen demo_open (uuid_pos demo_open + k))))
   \<and> (\<exists>r n s1. create_order demo_open demo_request 21 = Some (Inr r, s1)
         \<and> get_surprise_bag s1 1 = Some (demo_bag\<lparr>quantity_available := 2, quantity_sold := 2\<rparr>)
         \<and> orders s1 = [demo_order, r] \<and> status r = pending \<and> total_price r = 5
         \<and> notifications s1 = [demo_notification, n]
         \<and> type_notification n = order_confirmation \<and> user_id n = 21
         \<and> sublist (pickup_code r) (message n))
   \<and> get_surprise_bag demo_stuck (bag_id_in demo_request) = Some (demo_bag\<lparr>quantity_available := 2\<rparr>)
   \<and> (\<forall>k. taken demo_stuck (take 8 (uuid_gen demo_stuck (uuid_pos demo_stuck + k))))
   \<and> create_order demo_stuck demo_request 21 = None"
proof -
  have h1: "get_surprise_bag demo_state (bag_id_in (demo_request\<lparr>bag_id_in := 2\<rparr>)) = None"
    by (simp add: demo_bags demo_request_def)
  have h2: "get_surprise_bag demo_state (bag_id_in demo_request) = Some demo_bag"
    "is_active_bag demo_bag" "quantity_available demo_bag \<le> quantity_sold demo_bag"
    by (simp_all add: demo_bags demo_request_def) (simp_all add: demo_defs)
  note h3 = demo_open_bag(1,4,5)
  have h4: "\<exists>k. \<not> taken demo_open (take 8 (uuid_gen demo_open (uuid_pos demo_open + k)))"
    by (rule exI [of _ 2]) (simp add: demo_taken, simp add: demo_defs)
  note h5 = demo_open_bag(3) demo_stuck_taken
  have e: "bag_id_in demo_request = 1"
     "numeric_10_2 demo_open (total_price_in demo_request) = 5"
     "orders demo_open = [demo_order]" "notifications demo_open = [demo_notification]"
     "quantity_sold demo_bag + 1 = 2"
    by (simp_all add: demo_request_def demo_defs demo_numeric_values)
  from create_order_spec [of demo_state "demo_request\<lparr>bag_id_in := 2\<rparr>" 21 demo_bag]
       create_order_spec [of demo_state demo_request 21 demo_bag]
       create_order_spec [of demo_open demo_request 21 "demo_bag\<lparr>quantity_available := 2\<rparr>"]
       create_order_spec [of demo_stuck demo_request 21 "demo_bag\<lparr>quantity_available := 2\<rparr>"]
       h1 h2 h3 h4 h5
  show ?thesis by (simp add: e) blast
qed

text \<open>
  Claim C1 as stated fails twice. A declared price of 5.0625 on a listing with a free unit
  gives an order whose \<open>total_price\<close> is 5.06, what the column rounding to hundredths holds.
  And with a UUID source that repeats the value whose first eight characters are the pickup
  code of the existing order, \<open>create_order\<close> on that listing does not return.
\<close>

theorem create_order_declared_price_counterexample:
  "total_price_in demo_precise_request = 5.0625
   \<and> map_option fst (create_order demo_open demo_precise_request 21)
       = Some (Inr \<lparr>order_id = ''cccccccc-3333-4333-8333-333333333333'',
                    customer_id = Some 21, bag_id = 1, total_price = 5.06, status = pending,
                    created_at_order = 3, updated_at = 3, pickup_code = ''bbbbbbbb'',
                    rating = None, feedback = None\<rparr>)
   \<and> create_order demo_stuck demo_request 22 = None"
proof -
  have k: "\<not> taken demo_open (take 8 (uuid_gen demo_open (uuid_pos demo_open + 2)))"
    by (simp add: demo_taken) (simp add: demo_defs)
  have j: "\<forall>j<2. taken demo_open (take 8 (uuid_gen demo_open (uuid_pos demo_open + j)))"
  proof (intro allI impI)
    fix j :: nat assume "j < 2"
    then have "j = 0 \<or> j = Suc 0" by arith
    then show "taken demo_open (take 8 (uuid_gen demo_open (uuid_pos demo_open + j)))"
      by (auto simp: demo_taken) (simp_all add: demo_defs)
  qed
  have "create_order demo_open demo_precise_request 21
          = Some (Inr (placed_order demo_open demo_precise_request 21 2),
                  placed_state demo_open (demo_bag\<lparr>quantity_available := 2\<rparr>)
                    demo_precise_request 21 2)"
    by (rule create_order_placed [OF demo_open_bag(2,4,5) k j])
  moreover have "placed_order demo_open demo_precise_request 21 2
      = \<lparr>order_id = ''cccccccc-3333-4333-8333-333333333333'',
         customer_id = Some 21, bag_id = 1, total_price = 5.06, status = pending,
         created_at_order = 3, updated_at = 3, pickup_code = ''bbbbbbbb'',
         rating = None, feedback = None\<rparr>"
    by (simp add: placed_order_def demo_precise_request_def demo_defs demo_numeric_values)
  moreover have "create_order demo_stuck demo_request 22 = None"
    by (rule create_order_stuck [OF demo_open_bag(3,4,5) demo_stuck_taken])
  moreover have "total_price_in demo_precise_request = 5.0625"
    by (simp add: demo_precise_request_def)
  ultimately show ?thesis by simp
qed

section \<open>The retry loop has no bound\<close>

lemma pickup_code_loop_late:
  "pickup_code_loop (demo_late N) ''aaaaaaaa''
     = Some (''bbbbbbbb'', (demo_late N)\<lparr>uuid_pos := Suc N\<rparr>)"
proof -
  have p: "uuid_pos (demo_late N) = 0"
    by (simp add: demo_late_def demo_defs)
  have t: "taken (demo_late N) c = (c = ''aaaaaaaa'')" for c
    by (auto simp: taken_def demo_late_def demo_defs)
  have c: "candidate (demo_late N) ''aaaaaaaa'' j = (if j \<le> N then ''aaaaaaaa'' else ''bbbbbbbb'')" for j
    by (cases j) (auto simp: candidate_def demo_late_def demo_defs)
  have "pickup_code_loop (demo_late N) ''aaaaaaaa''
          = Some (candidate (demo_late N) ''aaaaaaaa'' (Suc N),
                  (demo_late N)\<lparr>uuid_pos := uuid_pos (demo_late N) + Suc N\<rparr>)"
    by (rule pickup_code_loop_returns) (simp_all add: t c)
  then show ?thesis by (simp add: c p)
qed

text \<open>
  Claim C4, as the code has it. The retry loop of \<open>create_order\<close> draws a new candidate for
  as long as the current one is the pickup code of an existing order, and stops at the
  first candidate that is not: when the first \<open>k\<close> candidates are taken and the next one is
  free, it returns that one after exactly \<open>k\<close> regenerations. When every candidate is
  taken it never returns, and \<open>create_order\<close> with it: no conflict error is raised. No
  number bounds the regenerations of the runs that do return: for every \<open>N\<close> there is a
  session in which the loop returns after \<open>N + 1\<close> of them.
\<close>

theorem pickup_code_loop_unbounded:
  "(\<not> taken s (candidate s code k) \<and> (\<forall>j<k. taken s (candidate s code j))
      \<longrightarrow> pickup_code_loop s code = Some (candidate s code k, s\<lparr>uuid_pos := uuid_pos s + k\<rparr>))
   \<and> ((\<forall>k. taken s (candidate s code k)) \<longrightarrow> pickup_code_loop s code = None)
   \<and> (get_surprise_bag s (bag_id_in ord) = Some b \<and> is_active_bag b
        \<and> quantity_sold b < quantity_available b
        \<and> (\<forall>k. taken s (take 8 (uuid_gen s (uuid_pos s + k))))
      \<longrightarrow> create_order s ord cid = None)
   \<and> (\<exists>s0 c0 s1. pickup_code_loop s0 c0 = Some (''bbbbbbbb'', s1)
          \<and> uuid_pos s1 = uuid_pos s0 + Suc N)"
proof (intro conjI impI)
  assume "\<not> taken s (candidate s code k) \<and> (\<forall>j<k. taken s (candidate s code j))"
  then show "pickup_code_loop s code = Some (candidate s code k, s\<lparr>uuid_pos := uuid_pos s + k\<rparr>)"
    by (simp add: pickup_code_loop_returns)
next
  assume "\<forall>k. taken s (candidate s code k)"
  then show "pickup_code_loop s code = None"
    by (rule pickup_code_loop_None)
next
  assume "get_surprise_bag s (bag_id_in ord) = Some b \<and> is_active_bag b
        \<and> quantity_sold b < quantity_available b
        \<and> (\<forall>k. taken s (take 8 (uuid_gen s (uuid_pos s + k))))"
  then show "create_order s ord cid = None"
    by (simp add: create_order_stuck)
next
  have "uuid_pos ((demo_late N)\<lparr>uuid_pos := Suc N\<rparr>) = uuid_pos (demo_late N) + Suc N"
    by (simp add: demo_late_def demo_defs)
  with pickup_code_loop_late [of N]
  show "\<exists>s0 c0 s1. pickup_code_loop s0 c0 = Some (''bbbbbbbb'', s1)
          \<and> uuid_pos s1 = uuid_pos s0 + Suc N"
    by blast
qed

theorem pickup_code_loop_unbounded_witness:
  "\<not> taken (demo_open\<lparr>uuid_pos := Suc 0\<rparr>) (candidate (demo_open\<lparr>uuid_pos := Suc 0\<rparr>) ''aaaaaaaa'' 2)
   \<and> taken (demo_open\<lparr>uuid_pos := Suc 0\<rparr>) (candidate (demo_open\<lparr>uuid_pos := Suc 0\<rparr>) ''aaaaaaaa'' 0)
   \<and> taken (demo_open\<lparr>uuid_pos := Suc 0\<rparr>)
         (candidate (demo_open\<lparr>uuid_pos := Suc 0\<rparr>) ''aaaaaaaa'' (Suc 0))
   \<and> pickup_code_loop (demo_open\<lparr>uuid_pos := Suc 0\<rparr>) ''aaaaaaaa''
        = Some (''bbbbbbbb'', demo_open\<lparr>uuid_pos := 3\<rparr>)
   \<and> (\<forall>k. taken demo_stuck (candidate demo_stuck ''aaaaaaaa'' k))
   \<and> pickup_code_loop demo_stuck ''aaaaaaaa'' = None
   \<and> get_surprise_bag demo_stuck (bag_id_in demo_request) = Some (demo_bag\<lparr>quantity_available := 2\<rparr>)
   \<and> is_active_bag (demo_bag\<lparr>quantity_available := 2\<rparr>)
   \<and> quantity_sold (demo_bag\<lparr>quantity_available := 2\<rparr>)
        < quantity_available (demo_bag\<lparr>quantity_available := 2\<rparr>)
   \<and> (\<forall>k. taken demo_stuck (take 8 (uuid_gen demo_stuck (uuid_pos demo_stuck + k))))
   \<and> create_order demo_stuck demo_request 21 = None"
proof -
  let ?s = "demo_open\<lparr>uuid_pos := Suc 0\<rparr>"
  have c: "candidate ?s ''aaaaaaaa'' 0 = ''aaaaaaaa''" "candidate ?s ''aaaaaaaa'' (Suc 0) = ''aaaaaaaa''"
    "candidate ?s ''aaaaaaaa'' 2 = ''bbbbbbbb''"
    by (simp_all add: candidate_def demo_defs)
  have a1: "\<not> taken ?s (candidate ?s ''aaaaaaaa'' 2)"
    by (simp add: c demo_taken)
  have a2: "\<forall>j<2. taken ?s (candidate ?s ''aaaaaaaa'' j)"
  proof (intro allI impI)
    fix j :: nat assume "j < 2"
    then have "j = 0 \<or> j = Suc 0" by arith
    then show "taken ?s (candidate ?s ''aaaaaaaa'' j)"
      by (auto simp: c demo_taken)
  qed
  have a3: "\<forall>k. taken demo_stuck (candidate demo_stuck ''aaaaaaaa'' k)"
    by (simp add: candidate_def demo_taken) (simp add: demo_defs)
  have a4: "get_surprise_bag demo_stuck (bag_id_in demo_request)
              = Some (demo_bag\<lparr>quantity_available := 2\<rparr>)"
    "is_active_bag (demo_bag\<lparr>quantity_available := 2\<rparr>)"
    "quantity_sold (demo_bag\<lparr>quantity_available := 2\<rparr>)
        < quantity_available (demo_bag\<lparr>quantity_available := 2\<rparr>)"
    by (simp_all add: demo_bags demo_request_def) (simp_all add: demo_defs)
  have a5: "\<forall>k. taken demo_stuck (take 8 (uuid_gen demo_stuck (uuid_pos demo_stuck + k)))"
    by (simp add: demo_taken) (simp add: demo_defs)
  have e: "?s\<lparr>uuid_pos := uuid_pos ?s + 2\<rparr> = demo_open\<lparr>uuid_pos := 3\<rparr>"
    by (simp add: demo_defs)
  from pickup_code_loop_unbounded [of ?s "''aaaaaaaa''" 2]
       pickup_code_loop_unbounded
         [of demo_stuck "''aaaaaaaa''" 0 demo_request "demo_bag\<lparr>quantity_available := 2\<rparr>" 21]
       a1 a2 a3 a4 a5
  show ?thesis by (simp add: c e demo_taken)
qed

text \<open>
  Claim C4 as stated fails: with one unit left on the listing, one existing order and a
  UUID source that repeats the value whose first eight characters are the pickup code of
  that order, \<open>create_order\<close> does not terminate.
\<close>

theorem create_order_never_returns_counterexample:
  "create_order demo_stuck demo_request 21 = None"
proof (rule create_order_stuck)
  show "get_surprise_bag demo_stuck (bag_id_in demo_request)
              = Some (demo_bag\<lparr>quantity_available := 2\<rparr>)"
    by (simp add: demo_bags demo_request_def)
  show "is_active_bag (demo_bag\<lparr>quantity_available := 2\<rparr>)"
    by (simp add: demo_defs)
  show "quantity_sold (demo_bag\<lparr>quantity_available := 2\<rparr>)
        < quantity_available (demo_bag\<lparr>quantity_available := 2\<rparr>)"
    by (simp add: demo_defs)
  show "\<forall>k. taken demo_stuck (take 8 (uuid_gen demo_stuck (uuid_pos demo_stuck + k)))"
    by (simp add: demo_taken) (simp add: demo_defs)
qed

section \<open>Cancel, then order again\<close>

lemma taken_iff: "taken s c = (c \<in> set (map pickup_code (orders s)))"
  by (auto simp: taken_def find_None_iff)

lemma delete_order_pending_env:
  assumes "find (\<lambda>r. order_id r = oid \<and> customer_id r = Some cid) (orders s) = Some r"
    and "status r = pending"
  shows "uuid_gen (snd (delete_order s oid cid)) = uuid_gen s"
    and "uuid_pos (snd (delete_order s oid cid)) = Suc (uuid_pos s)"
    and "map pickup_code (orders (snd (delete_order s oid cid))) = map pickup_code (orders s)"
  using assms
  by (cases "get_surprise_bag s (bag_id r)";
      simp add: delete_order_def uuid4_def Let_def map_update_first)+

text \<open>
  Claim C6, as the code has it. Let the listing \<open>b\<close> be active and sold out, and let \<open>r\<close> be
  a pending order on it that belongs to the caller. Then \<open>delete_order\<close> succeeds and leaves
  the listing with \<open>quantity_sold\<close> lowered by exactly one. The \<open>create_order\<close> that follows
  on the listing, by any customer, passes the capacity check and enters the retry loop: if
  one of the UUIDs to come (after the one the cancellation notice takes) gives a pickup
  code no order has, it succeeds and brings \<open>quantity_sold\<close> back to where it was; if every
  one of them gives a pickup code some order has, it does not return.
\<close>

theorem cancel_then_reorder:
  assumes "get_surprise_bag s bid = Some b" and "is_active_bag b"
    and "quantity_sold b = quantity_available b"
    and "find (\<lambda>r. order_id r = oid \<and> customer_id r = Some cid) (orders s) = Some r"
    and "status r = pending" and "bag_id r = bid" and "bag_id_in ord = bid"
  shows "\<exists>s1. delete_order s oid cid = (Inr ''Order cancelled'', s1)
           \<and> get_surprise_bag s1 bid = Some (b\<lparr>quantity_sold := quantity_sold b - 1\<rparr>)
           \<and> ((\<exists>k. \<not> taken s (take 8 (uuid_gen s (Suc (uuid_pos s) + k)))) \<longrightarrow>
                (\<exists>r2 s2. create_order s1 ord cid2 = Some (Inr r2, s2)
                   \<and> status r2 = pending \<and> customer_id r2 = Some cid2 \<and> bag_id r2 = bid
                   \<and> get_surprise_bag s2 bid = Some b))
           \<and> ((\<forall>k. taken s (take 8 (uuid_gen s (Suc (uuid_pos s) + k)))) \<longrightarrow>
                create_order s1 ord cid2 = None)"
proof -
  let ?s1 = "snd (delete_order s oid cid)"
  let ?b1 = "b\<lparr>quantity_sold := quantity_sold b - 1\<rparr>"
  from delete_order_pending [OF assms(4,5)] assms(1,6)
  have d: "delete_order s oid cid = (Inr ''Order cancelled'', ?s1)"
    and g: "get_surprise_bag ?s1 bid = Some ?b1"
    by auto
  have t: "taken ?s1 c = taken s c" for c
    by (simp add: taken_iff delete_order_pending_env [OF assms(4,5)])
  have u: "take 8 (uuid_gen ?s1 (uuid_pos ?s1 + k)) = take 8 (uuid_gen s (Suc (uuid_pos s) + k))"
    for k
    by (simp add: delete_order_pending_env [OF assms(4,5)])
  have b1: "get_surprise_bag ?s1 (bag_id_in ord) = Some ?b1" "is_active_bag ?b1"
    "quantity_sold ?b1 < quantity_available ?b1"
    using g assms(2,3,7) by simp_all
  have placed: "\<exists>r2 s2. create_order ?s1 ord cid2 = Some (Inr r2, s2)
                   \<and> status r2 = pending \<and> customer_id r2 = Some cid2 \<and> bag_id r2 = bid
                   \<and> get_surprise_bag s2 bid = Some b"
    if "\<exists>k. \<not> taken s (take 8 (uuid_gen s (Suc (uuid_pos s) + k)))"
  proof -
    from that have fresh: "\<exists>k. \<not> taken ?s1 (take 8 (uuid_gen ?s1 (uuid_pos ?s1 + k)))"
      by (simp add: t u)
    from create_order_success [OF b1 fresh, of cid2]
    obtain r2 s2 where c: "create_order ?s1 ord cid2 = Some (Inr r2, s2)"
      "get_surprise_bag s2 (bag_id_in ord) = Some (?b1\<lparr>quantity_sold := quantity_sold ?b1 + 1\<rparr>)"
      "status r2 = pending" "customer_id r2 = Some cid2" "bag_id r2 = bag_id_in ord"
      by blast
    have "?b1\<lparr>quantity_sold := quantity_sold ?b1 + 1\<rparr> = b" by simp
    with c(2) assms(7) have "get_surprise_bag s2 bid = Some b" by simp
    with c assms(7) show ?thesis by blast
  qed
  have stuck: "create_order ?s1 ord cid2 = None"
    if "\<forall>k. taken s (take 8 (uuid_gen s (Suc (uuid_pos s) + k)))"
  proof (rule create_order_stuck [OF b1])
    from that show "\<forall>k. taken ?s1 (take 8 (uuid_gen ?s1 (uuid_pos ?s1 + k)))"
      by (simp add: t u)
  qed
  from d g placed stuck show ?thesis by blast
qed

lemma demo_order_found:
  "find (\<lambda>r. order_id r = order_id demo_order \<and> customer_id r = Some 20) (orders demo_state)
     = Some demo_order"
  "find (\<lambda>r. order_id r = order_id demo_order \<and> customer_id r = Some 20) (orders demo_repeat)
     = Some demo_order"
  "find (\<lambda>r. order_id r = order_id demo_order \<and> customer_id r = Some 20) (orders demo_inactive)
     = Some demo_order"
  "status demo_order = pending" "bag_id demo_order = 1" "bag_id_in demo_request = 1"
  "is_active_bag demo_bag" "quantity_sold demo_bag = quantity_available demo_bag"
  by (simp_all add: demo_defs)

lemma demo_repeat_taken:
  "\<forall>k. taken demo_repeat (take 8 (uuid_gen demo_repeat (Suc (uuid_pos demo_repeat) + k)))"
  by (simp add: demo_taken) (simp add: demo_defs)

theorem cancel_then_reorder_witness:
  "get_surprise_bag demo_state 1 = Some demo_bag \<and> is_active_bag demo_bag
   \<and> quantity_sold demo_bag = quantity_available demo_bag
   \<and> find (\<lambda>r. order_id r = order_id demo_order \<and> customer_id r = Some 20) (orders demo_state)
       = Some demo_order
   \<and> status demo_order = pending \<and> bag_id demo_order = 1 \<and> bag_id_in demo_request = 1
   \<and> (\<exists>k. \<not> taken demo_state (take 8 (uuid_gen demo_state (Suc (uuid_pos demo_state) + k))))
   \<and> (\<exists>s1 r2 s2. delete_order demo_state (order_id demo_order) 20 = (Inr ''Order cancelled'', s1)
           \<and> get_surprise_bag s1 1 = Some (demo_bag\<lparr>quantity_sold := 0\<rparr>)
           \<and> create_order s1 demo_request 21 = Some (Inr r2, s2)
           \<and> status r2 = pending \<and> customer_id r2 = Some 21 \<and> bag_id r2 = 1
           \<and> get_surprise_bag s2 1 = Some demo_bag)
   \<and> get_surprise_bag demo_repeat 1 = Some demo_bag
   \<and> find (\<lambda>r. order_id r = order_id demo_order \<and> customer_id r = Some 20) (orders demo_repeat)
       = Some demo_order
   \<and> (\<forall>k. taken demo_repeat (take 8 (uuid_gen demo_repeat (Suc (uuid_pos demo_repeat) + k))))
   \<and> (\<exists>s1. delete_order demo_repeat (order_id demo_order) 20 = (Inr ''Order cancelled'', s1)
           \<and> get_surprise_bag s1 1 = Some (demo_bag\<lparr>quantity_sold := 0\<rparr>)
           \<and> create_order s1 demo_request 21 = None)"
proof -
  note h = demo_bags(1) demo_order_found(7,8,1,4,5,6)
  note h2 = demo_bags(6) demo_order_found(7,8,2,4,5,6)
  have k: "\<exists>k. \<not> taken demo_state (take 8 (uuid_gen demo_state (Suc (uuid_pos demo_state) + k)))"
    by (rule exI [of _ 1]) (simp add: demo_taken, simp add: demo_defs)
  have q: "quantity_sold demo_bag - 1 = 0" "quantity_available demo_bag - 1 = 0"
    by (simp_all add: demo_defs)
  from cancel_then_reorder [OF h, of 21] k
  have 1: "\<exists>s1 r2 s2. delete_order demo_state (order_id demo_order) 20 = (Inr ''Order cancelled'', s1)
           \<and> get_surprise_bag s1 1 = Some (demo_bag\<lparr>quantity_sold := 0\<rparr>)
           \<and> create_order s1 demo_request 21 = Some (Inr r2, s2)
           \<and> status r2 = pending \<and> customer_id r2 = Some 21 \<and> bag_id r2 = 1
           \<and> get_surprise_bag s2 1 = Some demo_bag"
    by (simp add: q) blast
  from cancel_then_reorder [OF h2, of 21] demo_repeat_taken
  have 2: "\<exists>s1. delete_order demo_repeat (order_id demo_order) 20 = (Inr ''Order cancelled'', s1)
           \<and> get_surprise_bag s1 1 = Some (demo_bag\<lparr>quantity_sold := 0\<rparr>)
           \<and> create_order s1 demo_request 21 = None"
    by (simp add: q)
  from 1 2 h h2 k demo_repeat_taken show ?thesis by simp
qed

text \<open>
  Claim C6 as stated, for every sold-out listing with a pending order, fails twice. On a
  listing that has been deactivated the cancellation succeeds and frees the unit, and the
  order placed after it is refused with status 404. And on the active listing, with a UUID
  source that repeats the value whose first eight characters are the pickup code of the
  cancelled order, the cancellation succeeds and the order placed after it does not return.
\<close>

theorem cancel_then_reorder_inactive_counterexample:
  "get_surprise_bag demo_inactive 1 = Some (demo_bag\<lparr>is_active_bag := False\<rparr>)
   \<and> quantity_sold (demo_bag\<lparr>is_active_bag := False\<rparr>)
       = quantity_available (demo_bag\<lparr>is_active_bag := False\<rparr>)
   \<and> find (\<lambda>r. order_id r = order_id demo_order \<and> customer_id r = Some 20) (orders demo_inactive)
       = Some demo_order
   \<and> status demo_order = pending \<and> bag_id demo_order = 1
   \<and> fst (delete_order demo_inactive (order_id demo_order) 20) = Inr ''Order cancelled''
   \<and> get_surprise_bag (snd (delete_order demo_inactive (order_id demo_order) 20)) 1
       = Some (demo_bag\<lparr>is_active_bag := False, quantity_sold := 0\<rparr>)
   \<and> create_order (snd (delete_order demo_inactive (order_id demo_order) 20)) demo_request 21
       = Some (Inl (HTTPException 404 ''Surprise bag not found or not available''),
               snd (delete_order demo_inactive (order_id demo_order) 20))
   \<and> get_surprise_bag demo_repeat 1 = Some demo_bag
   \<and> is_active_bag demo_bag \<and> quantity_sold demo_bag = quantity_available demo_bag
   \<and> find (\<lambda>r. order_id r = order_id demo_order \<and> customer_id r = Some 20) (orders demo_repeat)
       = Some demo_order
   \<and> fst (delete_order demo_repeat (order_id demo_order) 20) = Inr ''Order cancelled''
   \<and> get_surprise_bag (snd (delete_order demo_repeat (order_id demo_order) 20)) 1
       = Some (demo_bag\<lparr>quantity_sold := 0\<rparr>)
   \<and> create_order (snd (delete_order demo_repeat (order_id demo_order) 20)) demo_request 21
       = None"
proof -
  let ?i = "snd (delete_order demo_inactive (order_id demo_order) 20)"
  let ?r = "snd (delete_order demo_repeat (order_id demo_order) 20)"
  have g: "get_surprise_bag ?i 1 = Some (demo_bag\<lparr>is_active_bag := False, quantity_sold := 0\<rparr>)"
    by (simp add: delete_order_def get_surprise_bag_def uuid4_def Let_def demo_defs)
  have c: "create_order ?i demo_request 21
       = Some (Inl (HTTPException 404 ''Surprise bag not found or not available''), ?i)"
    by (rule create_order_inactive [where b = "demo_bag\<lparr>is_active_bag := False, quantity_sold := 0\<rparr>"])
       (simp_all add: g demo_request_def)
  have f: "fst (delete_order demo_inactive (order_id demo_order) 20) = Inr ''Order cancelled''"
    "fst (delete_order demo_repeat (order_id demo_order) 20) = Inr ''Order cancelled''"
    by (simp_all add: delete_order_def get_surprise_bag_def uuid4_def Let_def demo_defs)
  have q: "quantity_sold (demo_bag\<lparr>is_active_bag := False\<rparr>)
       = quantity_available (demo_bag\<lparr>is_active_bag := False\<rparr>)"
    by (simp add: demo_defs)
  have g2: "get_surprise_bag ?r 1 = Some (demo_bag\<lparr>quantity_sold := 0\<rparr>)"
    by (simp add: delete_order_def get_surprise_bag_def uuid4_def Let_def demo_defs)
  have t: "taken ?r c = taken demo_repeat c" for c
    by (simp add: taken_iff delete_order_pending_env [OF demo_order_found(2,4)])
  have s: "create_order ?r demo_request 21 = None"
  proof (rule create_order_stuck [where b = "demo_bag\<lparr>quantity_sold := 0\<rparr>"])
    show "get_surprise_bag ?r (bag_id_in demo_request) = Some (demo_bag\<lparr>quantity_sold := 0\<rparr>)"
      by (simp add: g2 demo_request_def)
    show "is_active_bag (demo_bag\<lparr>quantity_sold := 0\<rparr>)"
      "quantity_sold (demo_bag\<lparr>quantity_sold := 0\<rparr>)
         < quantity_available (demo_bag\<lparr>quantity_sold := 0\<rparr>)"
      by (simp_all add: demo_bag_def)
    show "\<forall>k. taken ?r (take 8 (uuid_gen ?r (uuid_pos ?r + k)))"
      using demo_repeat_taken
      by (simp add: t delete_order_pending_env [OF demo_order_found(2,4)])
  qed
  from g c f q g2 s demo_bags(5,6) demo_order_found show ?thesis by simp
qed

section \<open>Pickup codes over a run\<close>

lemma notify_customers_frame:
  "orders (notify_customers s b ob cs) = orders s
   \<and> surprise_bags (notify_customers s b ob cs) = surprise_bags s
   \<and> bag_id_seq (notify_customers s b ob cs) = bag_id_seq s"
  by (induction cs arbitrary: s) (simp_all add: uuid4_def)

lemma create_surprise_bag_orders:
  "orders (snd (create_surprise_bag s bag bid)) = orders s"
  by (simp add: create_surprise_bag_def Let_def notify_customers_frame store_bag_def
        split: option.split)

lemma update_surprise_bag_orders:
  "orders (snd (update_surprise_bag s bid business u)) = orders s"
  by (simp add: update_surprise_bag_def split: option.split)

lemma delete_surprise_bag_orders:
  "orders (snd (delete_surprise_bag s bid business)) = orders s"
  by (simp add: delete_surprise_bag_def split: option.split)

lemma update_order_status_orders:
  "orders (snd (update_order_status s oid cid st)) =
     (case find (\<lambda>r. order_id r = oid \<and> customer_id r = Some cid) (orders s) of
        None \<Rightarrow> orders s
      | Some r \<Rightarrow> update_first (\<lambda>r. order_id r = oid \<and> customer_id r = Some cid)
                   (\<lambda>r. r\<lparr>status := st, updated_at := utcnow s\<rparr>) (orders s))"
  by (simp add: update_order_status_def uuid4_def Let_def split: option.split)

lemma delete_order_orders:
  "orders (snd (delete_order s oid cid)) =
     (case find (\<lambda>r. order_id r = oid \<and> customer_id r = Some cid) (orders s) of
        None \<Rightarrow> orders s
      | Some r \<Rightarrow>
          if status r \<noteq> pending then orders s
          else update_first (\<lambda>r. order_id r = oid \<and> customer_id r = Some cid)
                 (\<lambda>r. r\<lparr>status := cancelled, updated_at := utcnow s\<rparr>) (orders s))"
  by (simp add: delete_order_def uuid4_def Let_def split: option.split)

lemma serve_orders:
  assumes "serve s q = Some s1"
  shows "(map pickup_code (orders s1) = map pickup_code (orders s)
           \<and> map order_id (orders s1) = map order_id (orders s))
         \<or> (\<exists>r. \<not> taken s (pickup_code r) \<and> orders s1 = orders s @ [r])"
proof (cases q)
  case (PlaceOrder ord cid)
  with assms obtain res where "create_order s ord cid = Some (res, s1)"
    by (cases "create_order s ord cid") auto
  from create_order_cases [OF this] show ?thesis
  proof
    assume "\<exists>e. res = Inl e \<and> s1 = s"
    then show ?thesis by simp
  next
    assume "\<exists>b k. get_surprise_bag s (bag_id_in ord) = Some b \<and> is_active_bag b
            \<and> quantity_sold b < quantity_available b
            \<and> \<not> taken s (take 8 (uuid_gen s (uuid_pos s + k)))
            \<and> (\<forall>j<k. taken s (take 8 (uuid_gen s (uuid_pos s + j))))
            \<and> res = Inr (placed_order s ord cid k) \<and> s1 = placed_state s b ord cid k"
    then obtain b k where "\<not> taken s (take 8 (uuid_gen s (uuid_pos s + k)))"
      "s1 = placed_state s b ord cid k"
      by blast
    then have "\<not> taken s (pickup_code (placed_order s ord cid k))
               \<and> orders s1 = orders s @ [placed_order s ord cid k]"
      by (simp add: placed_order_def placed_state_def)
    then show ?thesis by blast
  qed
next
  case (CancelOrder oid cid)
  with assms have "s1 = snd (delete_order s oid cid)" by simp
  then show ?thesis
    by (simp add: delete_order_orders map_update_first split: option.split)
next
  case (UpdateStatus oid cid st)
  with assms have "s1 = snd (update_order_status s oid cid st)" by simp
  then show ?thesis
    by (simp add: update_order_status_orders map_update_first split: option.split)
next
  case (CreateListing bag bid)
  with assms show ?thesis by (auto simp: create_surprise_bag_orders)
next
  case (UpdateListing bid business bag)
  with assms show ?thesis by (auto simp: update_surprise_bag_orders)
next
  case (DeleteListing bid business)
  with assms show ?thesis by (auto simp: delete_surprise_bag_orders)
qed

lemma serve_codes:
  assumes "serve (s\<lparr>utcnow := t\<rparr>) q = Some s1" and "distinct (map pickup_code (orders s))"
  shows "distinct (map pickup_code (orders s1))
         \<and> prefix (map pickup_code (orders s)) (map pickup_code (orders s1))
         \<and> prefix (map order_id (orders s)) (map order_id (orders s1))"
  using serve_orders [OF assms(1)] assms(2)
  by (auto simp: taken_iff)

lemma run_codes:
  "run s qs = Some s1 \<Longrightarrow> distinct (map pickup_code (orders s)) \<Longrightarrow>
   distinct (map pickup_code (orders s1))
   \<and> prefix (map pickup_code (orders s)) (map pickup_code (orders s1))
   \<and> prefix (map order_id (orders s)) (map order_id (orders s1))"
proof (induction qs arbitrary: s)
  case Nil
  then show ?case by simp
next
  case (Cons tq qs)
  obtain t q where tq: "tq = (t, q)" by (cases tq)
  with Cons.prems(1) obtain s2 where s2: "serve (s\<lparr>utcnow := t\<rparr>) q = Some s2"
    and r: "run s2 qs = Some s1"
    by (cases "serve (s\<lparr>utcnow := t\<rparr>) q") auto
  from serve_codes [OF s2 Cons.prems(2)]
  have a: "distinct (map pickup_code (orders s2))"
    "prefix (map pickup_code (orders s)) (map pickup_code (orders s2))"
    "prefix (map order_id (orders s)) (map order_id (orders s2))"
    by simp_all
  from Cons.IH [OF r a(1)] a(2,3) show ?case
    by (blast intro: prefix_order.trans)
qed

text \<open>
  Claim C3. Over every run of requests that starts in a session whose pickup codes are
  pairwise distinct (the empty order table is one), the pickup codes of the final session
  are pairwise distinct, and the orders of the starting session are still there, in place
  and with their ids and codes: no request removes an order, a cancelled order keeps its
  code. Every successful \<open>create_order\<close> appends one order whose pickup code is the code of
  no order that existed before.
\<close>

theorem pickup_codes_unique:
  "(distinct (map pickup_code (orders s)) \<and> run s qs = Some s1 \<longrightarrow>
      distinct (map pickup_code (orders s1))
      \<and> prefix (map pickup_code (orders s)) (map pickup_code (orders s1))
      \<and> prefix (map order_id (orders s)) (map order_id (orders s1)))
   \<and> (create_order s ord cid = Some (Inr r, s2) \<longrightarrow>
        pickup_code r \<notin> set (map pickup_code (orders s)) \<and> orders s2 = orders s @ [r])"
proof (intro conjI impI)
  assume a: "distinct (map pickup_code (orders s)) \<and> run s qs = Some s1"
  then have "run s qs = Some s1" "distinct (map pickup_code (orders s))" by simp_all
  from run_codes [OF this]
  show "distinct (map pickup_code (orders s1))"
    "prefix (map pickup_code (orders s)) (map pickup_code (orders s1))"
    "prefix (map order_id (orders s)) (map order_id (orders s1))"
    by simp_all
next
  assume "create_order s ord cid = Some (Inr r, s2)"
  then have "serve s (PlaceOrder ord cid) = Some s2"
    and c: "create_order s ord cid = Some (Inr r, s2)" by simp_all
  from create_order_cases [OF c] obtain b k where
    k: "\<not> taken s (take 8 (uuid_gen s (uuid_pos s + k)))"
    "r = placed_order s ord cid k" "s2 = placed_state s b ord cid k"
    by auto
  then show "pickup_code r \<notin> set (map pickup_code (orders s))" "orders s2 = orders s @ [r]"
    by (simp_all add: taken_iff placed_order_def placed_state_def)
qed


lemma demo_cancelled:
  "get_surprise_bag ((snd (delete_order (demo_state\<lparr>utcnow := 4\<rparr>) (order_id demo_order) 20))
      \<lparr>utcnow := 5\<rparr>) 1 = Some (demo_bag\<lparr>quantity_sold := 0\<rparr>)"
  "orders ((snd (delete_order (demo_state\<lparr>utcnow := 4\<rparr>) (order_id demo_order) 20))
      \<lparr>utcnow := 5\<rparr>) = [demo_order\<lparr>status := cancelled, updated_at := 4\<rparr>]"
  "uuid_pos ((snd (delete_order (demo_state\<lparr>utcnow := 4\<rparr>) (order_id demo_order) 20))
      \<lparr>utcnow := 5\<rparr>) = 1"
  "uuid_gen ((snd (delete_order (demo_state\<lparr>utcnow := 4\<rparr>) (order_id demo_order) 20))
      \<lparr>utcnow := 5\<rparr>) = demo_uuid"
  by (simp_all add: delete_order_def get_surprise_bag_def uuid4_def Let_def demo_state_def
        demo_bag_def demo_order_def)

theorem pickup_codes_unique_witness:
  "distinct (map pickup_code (orders demo_state))
   \<and> (\<exists>s1. run demo_state [(4, CancelOrder (order_id demo_order) 20),
                               (5, PlaceOrder demo_request 21)] = Some s1
        \<and> distinct (map pickup_code (orders s1))
        \<and> prefix (map pickup_code (orders demo_state)) (map pickup_code (orders s1))
        \<and> length (orders s1) = 2)
   \<and> (\<exists>r s2. create_order demo_open demo_request 21 = Some (Inr r, s2)
        \<and> pickup_code r \<notin> set (map pickup_code (orders demo_open))
        \<and> orders s2 = orders demo_open @ [r])"
proof -
  let ?sc = "(snd (delete_order (demo_state\<lparr>utcnow := 4\<rparr>) (order_id demo_order) 20))
      \<lparr>utcnow := 5\<rparr>"
  let ?Q = "[(4, CancelOrder (order_id demo_order) 20), (5, PlaceOrder demo_request 21)]"
  have d: "distinct (map pickup_code (orders demo_state))"
    by (simp add: demo_defs)
  have b: "get_surprise_bag ?sc (bag_id_in demo_request) = Some (demo_bag\<lparr>quantity_sold := 0\<rparr>)"
    "is_active_bag (demo_bag\<lparr>quantity_sold := 0\<rparr>)"
    "quantity_sold (demo_bag\<lparr>quantity_sold := 0\<rparr>)
       < quantity_available (demo_bag\<lparr>quantity_sold := 0\<rparr>)"
    by (simp_all add: demo_cancelled demo_request_def) (simp_all add: demo_bag_def)
  have f: "\<exists>k. \<not> taken ?sc (take 8 (uuid_gen ?sc (uuid_pos ?sc + k)))"
    by (rule exI [of _ 1]) (simp add: taken_iff demo_cancelled, simp add: demo_defs)
  from create_order_success [OF b f, of 21] obtain r s1 where
    c: "create_order ?sc demo_request 21 = Some (Inr r, s1)" and o: "orders s1 = orders ?sc @ [r]"
    by blast
  from c have r: "run demo_state ?Q = Some s1" by simp
  from o have l: "length (orders s1) = 2" by (simp add: demo_cancelled)
  have b2: "get_surprise_bag demo_open (bag_id_in demo_request)
              = Some (demo_bag\<lparr>quantity_available := 2\<rparr>)"
    "is_active_bag (demo_bag\<lparr>quantity_available := 2\<rparr>)"
    "quantity_sold (demo_bag\<lparr>quantity_available := 2\<rparr>)
        < quantity_available (demo_bag\<lparr>quantity_available := 2\<rparr>)"
    by (simp_all add: demo_bags demo_request_def) (simp_all add: demo_defs)
  have f2: "\<exists>k. \<not> taken demo_open (take 8 (uuid_gen demo_open (uuid_pos demo_open + k)))"
    by (rule exI [of _ 2]) (simp add: demo_taken, simp add: demo_defs)
  from create_order_success [OF b2 f2, of 21] obtain r2 s2 where
    c2: "create_order demo_open demo_request 21 = Some (Inr r2, s2)"
    by blast
  from pickup_codes_unique [of demo_state ?Q s1] d r
       pickup_codes_unique [of demo_open "[]" demo_open demo_request 21 r2 s2] c2 l
  show ?thesis by blast
qed

section \<open>The inventory invariant\<close>

lemma update_first_set:
  assumes "find P xs = Some b" and "distinct (map key xs)" and "\<And>x. P x \<Longrightarrow> key x = k"
  shows "set (update_first P f xs) = insert (f b) (set xs - {b})
         \<and> (\<forall>x\<in>set xs - {b}. key x \<noteq> k) \<and> b \<in> set xs \<and> P b"
  using assms(1,2)
proof (induction xs)
  case Nil
  then show ?case by simp
next
  case (Cons x xs)
  show ?case
  proof (cases "P x")
    case True
    with Cons.prems have xb: "x = b" by simp
    from Cons.prems(2) have "key x \<notin> key ` set xs" "x \<notin> set xs" by auto
    with True xb assms(3) [OF True] show ?thesis
      by (auto simp: image_iff)
  next
    case False
    with Cons.prems have f: "find P xs = Some b" and d: "distinct (map key xs)" by simp_all
    from Cons.IH [OF f d] have ih: "set (update_first P f xs) = insert (f b) (set xs - {b})"
      "\<forall>x\<in>set xs - {b}. key x \<noteq> k" "b \<in> set xs" "P b"
      by simp_all
    from ih(3,4) Cons.prems(2) assms(3) have "key x \<noteq> k"
      by (auto simp: image_iff)
    moreover from False ih(4) have "x \<noteq> b" by auto
    ultimately show ?thesis using False ih by auto
  qed
qed

lemma filter_update_first:
  "find P xs = Some r \<Longrightarrow>
   int (length (filter Q (update_first P f xs)))
     = int (length (filter Q xs)) - (if Q r then 1 else 0) + (if Q (f r) then 1 else 0)"
  by (induction xs) (auto split: if_splits)

lemma pending_on_update_first:
  "find P os = Some r \<Longrightarrow>
   pending_on (update_first P f os) bid
     = pending_on os bid - (if bag_id r = bid \<and> status r = pending then 1 else 0)
       + (if bag_id (f r) = bid \<and> status (f r) = pending then 1 else 0)"
  unfolding pending_on_def by (rule filter_update_first)

lemma pending_on_append:
  "pending_on (os @ [r]) bid
     = pending_on os bid + (if bag_id r = bid \<and> status r = pending then 1 else 0)"
  by (simp add: pending_on_def)

lemma pending_on_nonneg: "0 \<le> pending_on os bid"
  by (simp add: pending_on_def)

lemma pending_on_unreferenced: "bid \<notin> bag_id ` set os \<Longrightarrow> pending_on os bid = 0"
  by (auto simp: pending_on_def filter_empty_conv)

lemma valid_state_iff:
  "valid_state s =
     (distinct (map id_bag (surprise_bags s))
      \<and> (\<forall>b\<in>set (surprise_bags s). id_bag b \<le> bag_id_seq s)
      \<and> (\<forall>r\<in>set (orders s). bag_id r \<in> id_bag ` set (surprise_bags s))
      \<and> (\<forall>b\<in>set (surprise_bags s).
            pending_on (orders s) (id_bag b) \<le> quantity_sold b
            \<and> quantity_sold b \<le> quantity_available b))"
  by (simp add: valid_state_def list_all_iff)

lemma valid_state_capacity:
  assumes "valid_state s"
  shows "capacity_invariant s"
proof -
  have "capacity_ok b" if "b \<in> set (surprise_bags s)" for b
  proof -
    from assms that have "pending_on (orders s) (id_bag b) \<le> quantity_sold b"
      "quantity_sold b \<le> quantity_available b"
      by (simp_all add: valid_state_iff)
    with pending_on_nonneg [of "orders s" "id_bag b"] show ?thesis
      by (simp add: capacity_ok_def)
  qed
  then show ?thesis by (simp add: capacity_invariant_def list_all_iff)
qed

lemma valid_state_utcnow [simp]: "valid_state (s\<lparr>utcnow := t\<rparr>) = valid_state s"
  by (simp add: valid_state_def)


lemma find_SomeD: "find P xs = Some x \<Longrightarrow> x \<in> set xs \<and> P x"
  by (auto simp: find_Some_iff)

lemma valid_state_step:
  assumes v: "valid_state s"
    and f: "find P (surprise_bags s) = Some b"
    and pk: "\<And>x. P x \<Longrightarrow> id_bag x = k"
    and gid: "\<And>x. id_bag (g x) = id_bag x"
    and bags: "surprise_bags s1 = update_first P g (surprise_bags s)"
    and seq: "bag_id_seq s1 = bag_id_seq s"
    and fk: "\<And>r. r \<in> set (orders s1) \<Longrightarrow> bag_id r \<in> id_bag ` set (surprise_bags s)"
    and cap: "pending_on (orders s1) k \<le> quantity_sold (g b)"
             "quantity_sold (g b) \<le> quantity_available (g b)"
    and rest: "\<And>x. x \<noteq> k \<Longrightarrow> pending_on (orders s1) x \<le> pending_on (orders s) x"
  shows "valid_state s1"
proof -
  from v have d: "distinct (map id_bag (surprise_bags s))"
    by (simp add: valid_state_iff)
  have ids: "map id_bag (surprise_bags s1) = map id_bag (surprise_bags s)"
    unfolding bags by (rule map_update_first) (rule gid)
  then have img: "id_bag ` set (surprise_bags s1) = id_bag ` set (surprise_bags s)"
    by (metis set_map)
  from update_first_set [OF f d pk, of g] bags
  have st: "set (surprise_bags s1) = insert (g b) (set (surprise_bags s) - {b})"
    and others: "\<forall>x\<in>set (surprise_bags s) - {b}. id_bag x \<noteq> k"
    and b: "b \<in> set (surprise_bags s)" "P b"
    by simp_all
  have 1: "distinct (map id_bag (surprise_bags s1))"
    using d ids by simp
  have 2: "\<forall>x\<in>set (surprise_bags s1). id_bag x \<le> bag_id_seq s1"
  proof
    fix x assume "x \<in> set (surprise_bags s1)"
    then have "id_bag x \<in> id_bag ` set (surprise_bags s)" using img by blast
    with v show "id_bag x \<le> bag_id_seq s1"
      by (auto simp: valid_state_iff seq)
  qed
  have 3: "\<forall>r\<in>set (orders s1). bag_id r \<in> id_bag ` set (surprise_bags s1)"
    using fk img by simp
  have 4: "\<forall>x\<in>set (surprise_bags s1).
            pending_on (orders s1) (id_bag x) \<le> quantity_sold x
            \<and> quantity_sold x \<le> quantity_available x"
  proof
    fix x assume "x \<in> set (surprise_bags s1)"
    with st consider "x = g b" | "x \<in> set (surprise_bags s) - {b}" by blast
    then show "pending_on (orders s1) (id_bag x) \<le> quantity_sold x
            \<and> quantity_sold x \<le> quantity_available x"
    proof cases
      case 1
      with cap gid [of b] pk [OF b(2)] show ?thesis by simp
    next
      case 2
      with others have "id_bag x \<noteq> k" by blast
      from rest [OF this] 2 v show ?thesis
        by (fastforce simp: valid_state_iff)
    qed
  qed
  from 1 2 3 4 show ?thesis by (simp add: valid_state_iff)
qed

lemma valid_state_orders:
  assumes v: "valid_state s"
    and bags: "surprise_bags s1 = surprise_bags s"
    and seq: "bag_id_seq s1 = bag_id_seq s"
    and fk: "\<And>r. r \<in> set (orders s1) \<Longrightarrow> bag_id r \<in> id_bag ` set (surprise_bags s)"
    and rest: "\<And>x. pending_on (orders s1) x \<le> pending_on (orders s) x"
  shows "valid_state s1"
proof -
  have "pending_on (orders s1) (id_bag x) \<le> quantity_sold x
            \<and> quantity_sold x \<le> quantity_available x"
    if "x \<in> set (surprise_bags s)" for x
    using rest [of "id_bag x"] v that by (fastforce simp: valid_state_iff)
  with v fk show ?thesis
    by (simp add: valid_state_iff bags seq)
qed

lemma valid_create_order:
  assumes v: "valid_state s" and c: "create_order s ord cid = Some (res, s1)"
  shows "valid_state s1"
  using create_order_cases [OF c]
proof
  assume "\<exists>e. res = Inl e \<and> s1 = s"
  with v show ?thesis by blast
next
  assume "\<exists>b k. get_surprise_bag s (bag_id_in ord) = Some b \<and> is_active_bag b
            \<and> quantity_sold b < quantity_available b
            \<and> \<not> taken s (take 8 (uuid_gen s (uuid_pos s + k)))
            \<and> (\<forall>j<k. taken s (take 8 (uuid_gen s (uuid_pos s + j))))
            \<and> res = Inr (placed_order s ord cid k) \<and> s1 = placed_state s b ord cid k"
  then obtain b k where f: "find (\<lambda>b. id_bag b = bag_id_in ord) (surprise_bags s) = Some b"
    and q: "quantity_sold b < quantity_available b"
    and s1: "s1 = placed_state s b ord cid k"
    by (auto simp: get_surprise_bag_def)
  from find_SomeD [OF f] have b: "b \<in> set (surprise_bags s)" "id_bag b = bag_id_in ord"
    by simp_all
  from v b have p: "pending_on (orders s) (bag_id_in ord) \<le> quantity_sold b"
    by (fastforce simp: valid_state_iff)
  show ?thesis
  proof (rule valid_state_step [OF v f, where k = "bag_id_in ord"
        and g = "\<lambda>b. b\<lparr>quantity_sold := quantity_sold b + 1\<rparr>"])
    show "surprise_bags s1 = update_first (\<lambda>b. id_bag b = bag_id_in ord)
            (\<lambda>b. b\<lparr>quantity_sold := quantity_sold b + 1\<rparr>) (surprise_bags s)"
      by (simp add: s1 placed_state_def)
    show "bag_id_seq s1 = bag_id_seq s"
      by (simp add: s1 placed_state_def)
    have here: "bag_id_in ord \<in> id_bag ` set (surprise_bags s)"
      using b by (metis imageI)
    show "bag_id r \<in> id_bag ` set (surprise_bags s)" if "r \<in> set (orders s1)" for r
      using that v here by (auto simp: s1 placed_state_def placed_order_def valid_state_iff)
    show "pending_on (orders s1) (bag_id_in ord)
            \<le> quantity_sold (b\<lparr>quantity_sold := quantity_sold b + 1\<rparr>)"
      using p by (simp add: s1 placed_state_def placed_order_def pending_on_append)
    show "quantity_sold (b\<lparr>quantity_sold := quantity_sold b + 1\<rparr>)
            \<le> quantity_available (b\<lparr>quantity_sold := quantity_sold b + 1\<rparr>)"
      using q by simp
    show "pending_on (orders s1) x \<le> pending_on (orders s) x" if "x \<noteq> bag_id_in ord" for x
      using that by (simp add: s1 placed_state_def placed_order_def pending_on_append)
  qed simp_all
qed


lemma delete_order_bags:
  "surprise_bags (snd (delete_order s oid cid)) =
     (case find (\<lambda>r. order_id r = oid \<and> customer_id r = Some cid) (orders s) of
        None \<Rightarrow> surprise_bags s
      | Some r \<Rightarrow>
          if status r \<noteq> pending then surprise_bags s
          else (case get_surprise_bag s (bag_id r) of
                  None \<Rightarrow> surprise_bags s
                | Some b \<Rightarrow> update_first (\<lambda>b. id_bag b = bag_id r)
                             (\<lambda>b. b\<lparr>quantity_sold := quantity_sold b - 1\<rparr>) (surprise_bags s)))"
  "bag_id_seq (snd (delete_order s oid cid)) = bag_id_seq s"
  by (simp_all add: delete_order_def uuid4_def Let_def split: option.split)

lemma update_order_status_bags:
  "surprise_bags (snd (update_order_status s oid cid st)) = surprise_bags s"
  "bag_id_seq (snd (update_order_status s oid cid st)) = bag_id_seq s"
  by (simp_all add: update_order_status_def uuid4_def Let_def split: option.split)

lemma bag_ids_update_first:
  "(\<And>x. bag_id (f x) = bag_id x) \<Longrightarrow> bag_id ` set (update_first P f os) = bag_id ` set os"
  by (metis map_update_first set_map)

lemma valid_delete_order:
  assumes v: "valid_state s"
  shows "valid_state (snd (delete_order s oid cid))"
proof (cases "find (\<lambda>r. order_id r = oid \<and> customer_id r = Some cid) (orders s)")
  case None
  with v show ?thesis by (simp add: delete_order_def)
next
  case (Some r)
  show ?thesis
  proof (cases "status r = pending")
    case False
    with Some v show ?thesis by (simp add: delete_order_def)
  next
    case True
    let ?s1 = "snd (delete_order s oid cid)"
    let ?P = "\<lambda>r. order_id r = oid \<and> customer_id r = Some cid"
    let ?f = "\<lambda>r. r\<lparr>status := cancelled, updated_at := utcnow s\<rparr>"
    have o: "orders ?s1 = update_first ?P ?f (orders s)"
      using Some True by (simp add: delete_order_orders)
    have fk: "bag_id x \<in> id_bag ` set (surprise_bags s)" if "x \<in> set (orders ?s1)" for x
    proof -
      from that have "bag_id x \<in> bag_id ` set (update_first ?P ?f (orders s))"
        unfolding o by (rule imageI)
      then have "bag_id x \<in> bag_id ` set (orders s)"
        by (simp add: bag_ids_update_first)
      with v show ?thesis by (auto simp: valid_state_iff)
    qed
    have p: "pending_on (orders ?s1) x
               = pending_on (orders s) x - (if bag_id r = x then 1 else 0)" for x
      unfolding o using True by (simp add: pending_on_update_first [OF Some])
    show ?thesis
    proof (cases "get_surprise_bag s (bag_id r)")
      case None
      show ?thesis
      proof (rule valid_state_orders [OF v])
        show "surprise_bags ?s1 = surprise_bags s"
          using Some True None by (simp add: delete_order_bags)
        show "bag_id_seq ?s1 = bag_id_seq s" by (simp add: delete_order_bags)
        show "pending_on (orders ?s1) x \<le> pending_on (orders s) x" for x
          by (simp add: p)
      qed (rule fk)
    next
      case b: (Some b)
      then have f: "find (\<lambda>b. id_bag b = bag_id r) (surprise_bags s) = Some b"
        by (simp add: get_surprise_bag_def)
      from find_SomeD [OF f] v
      have c: "pending_on (orders s) (bag_id r) \<le> quantity_sold b"
        "quantity_sold b \<le> quantity_available b"
        by (fastforce simp: valid_state_iff)+
      show ?thesis
      proof (rule valid_state_step [OF v f, where k = "bag_id r"
            and g = "\<lambda>b. b\<lparr>quantity_sold := quantity_sold b - 1\<rparr>"])
        show "surprise_bags ?s1 = update_first (\<lambda>b. id_bag b = bag_id r)
               (\<lambda>b. b\<lparr>quantity_sold := quantity_sold b - 1\<rparr>) (surprise_bags s)"
          using Some True b by (simp add: delete_order_bags)
        show "bag_id_seq ?s1 = bag_id_seq s" by (simp add: delete_order_bags)
        show "pending_on (orders ?s1) (bag_id r)
                \<le> quantity_sold (b\<lparr>quantity_sold := quantity_sold b - 1\<rparr>)"
          using c by (simp add: p)
        show "quantity_sold (b\<lparr>quantity_sold := quantity_sold b - 1\<rparr>)
                \<le> quantity_available (b\<lparr>quantity_sold := quantity_sold b - 1\<rparr>)"
          using c by simp
        show "pending_on (orders ?s1) x \<le> pending_on (orders s) x" if "x \<noteq> bag_id r" for x
          by (simp add: p)
      qed (simp_all add: fk)
    qed
  qed
qed

lemma valid_update_order_status:
  assumes v: "valid_state s" and k: "keeps_capacity s (UpdateStatus oid cid st)"
  shows "valid_state (snd (update_order_status s oid cid st))"
proof (cases "find (\<lambda>r. order_id r = oid \<and> customer_id r = Some cid) (orders s)")
  case None
  with v show ?thesis by (simp add: update_order_status_def)
next
  case (Some r)
  let ?s1 = "snd (update_order_status s oid cid st)"
  let ?P = "\<lambda>r. order_id r = oid \<and> customer_id r = Some cid"
  let ?f = "\<lambda>r. r\<lparr>status := st, updated_at := utcnow s\<rparr>"
  from k Some have g: "st \<noteq> pending \<or> status r = pending" by simp
  have o: "orders ?s1 = update_first ?P ?f (orders s)"
    using Some by (simp add: update_order_status_orders)
  show ?thesis
  proof (rule valid_state_orders [OF v])
    show "surprise_bags ?s1 = surprise_bags s" "bag_id_seq ?s1 = bag_id_seq s"
      by (simp_all add: update_order_status_bags)
    show "bag_id x \<in> id_bag ` set (surprise_bags s)" if "x \<in> set (orders ?s1)" for x
    proof -
      from that have "bag_id x \<in> bag_id ` set (update_first ?P ?f (orders s))"
        unfolding o by (rule imageI)
      then have "bag_id x \<in> bag_id ` set (orders s)"
        by (simp add: bag_ids_update_first)
      with v show ?thesis by (auto simp: valid_state_iff)
    qed
    show "pending_on (orders ?s1) x \<le> pending_on (orders s) x" for x
      unfolding o using g by (auto simp: pending_on_update_first [OF Some])
  qed
qed

lemma create_surprise_bag_tables:
  "snd (create_surprise_bag s bag bid) = s
   \<or> (\<exists>nb. surprise_bags (snd (create_surprise_bag s bag bid)) = surprise_bags s @ [nb]
         \<and> bag_id_seq (snd (create_surprise_bag s bag bid)) = bag_id_seq s + 1
         \<and> id_bag nb = bag_id_seq s + 1 \<and> quantity_sold nb = 0
         \<and> quantity_available nb = quantity_available_in bag)"
  by (simp add: create_surprise_bag_def Let_def notify_customers_frame store_bag_def
        split: option.split)

lemma valid_create_surprise_bag:
  assumes v: "valid_state s" and k: "keeps_capacity s (CreateListing bag bid)"
  shows "valid_state (snd (create_surprise_bag s bag bid))"
  using create_surprise_bag_tables [of s bag bid]
proof
  assume "snd (create_surprise_bag s bag bid) = s"
  with v show ?thesis by simp
next
  let ?s1 = "snd (create_surprise_bag s bag bid)"
  assume "\<exists>nb. surprise_bags ?s1 = surprise_bags s @ [nb]
         \<and> bag_id_seq ?s1 = bag_id_seq s + 1
         \<and> id_bag nb = bag_id_seq s + 1 \<and> quantity_sold nb = 0
         \<and> quantity_available nb = quantity_available_in bag"
  then obtain nb where nb: "surprise_bags ?s1 = surprise_bags s @ [nb]"
    "bag_id_seq ?s1 = bag_id_seq s + 1" "id_bag nb = bag_id_seq s + 1"
    "quantity_sold nb = 0" "quantity_available nb = quantity_available_in bag"
    by blast
  have o: "orders ?s1 = orders s" by (rule create_surprise_bag_orders)
  from v have old: "\<forall>b\<in>set (surprise_bags s). id_bag b \<le> bag_id_seq s"
    and fk: "\<forall>r\<in>set (orders s). bag_id r \<in> id_bag ` set (surprise_bags s)"
    by (simp_all add: valid_state_iff)
  from old have fresh: "bag_id_seq s + 1 \<notin> id_bag ` set (surprise_bags s)"
    by fastforce
  with fk have "bag_id_seq s + 1 \<notin> bag_id ` set (orders s)"
    by fastforce
  then have z: "pending_on (orders s) (bag_id_seq s + 1) = 0"
    by (rule pending_on_unreferenced)
  from k have q: "0 \<le> quantity_available_in bag" by simp
  have 1: "distinct (map id_bag (surprise_bags ?s1))"
    using v fresh by (simp add: valid_state_iff nb)
  have 2: "\<forall>b\<in>set (surprise_bags ?s1). id_bag b \<le> bag_id_seq ?s1"
    using old by (fastforce simp: nb)
  have 3: "\<forall>r\<in>set (orders ?s1). bag_id r \<in> id_bag ` set (surprise_bags ?s1)"
    using fk by (auto simp: nb o)
  have 4: "\<forall>b\<in>set (surprise_bags ?s1).
            pending_on (orders ?s1) (id_bag b) \<le> quantity_sold b
            \<and> quantity_sold b \<le> quantity_available b"
    using v z q by (auto simp: valid_state_iff nb o)
  from 1 2 3 4 show ?thesis by (simp add: valid_state_iff)
qed

lemma valid_update_surprise_bag:
  assumes v: "valid_state s" and k: "keeps_capacity s (UpdateListing bid business u)"
  shows "valid_state (snd (update_surprise_bag s bid business u))"
proof (cases "find (\<lambda>b. id_bag b = bid \<and> business_id b = business) (surprise_bags s)")
  case None
  with v show ?thesis by (simp add: update_surprise_bag_def)
next
  case (Some b)
  let ?s1 = "snd (update_surprise_bag s bid business u)"
  from k Some have g: "quantity_sold b \<le> quantity_available_in u" by simp
  from find_SomeD [OF Some] v
  have c: "pending_on (orders s) bid \<le> quantity_sold b"
    by (fastforce simp: valid_state_iff)
  show ?thesis
  proof (rule valid_state_step [OF v Some, where k = bid
        and g = "\<lambda>b. store_bag s (apply_update u b)"])
    show "surprise_bags ?s1 = update_first (\<lambda>b. id_bag b = bid \<and> business_id b = business)
            (\<lambda>b. store_bag s (apply_update u b)) (surprise_bags s)"
      using Some by (simp add: update_surprise_bag_def)
    show "bag_id_seq ?s1 = bag_id_seq s"
      using Some by (simp add: update_surprise_bag_def)
    show "bag_id r \<in> id_bag ` set (surprise_bags s)" if "r \<in> set (orders ?s1)" for r
      using that v by (simp add: update_surprise_bag_orders valid_state_iff)
    show "pending_on (orders ?s1) bid \<le> quantity_sold (store_bag s (apply_update u b))"
      using c by (simp add: update_surprise_bag_orders apply_update_def store_bag_def)
    show "quantity_sold (store_bag s (apply_update u b))
            \<le> quantity_available (store_bag s (apply_update u b))"
      using g by (simp add: apply_update_def store_bag_def)
    show "pending_on (orders ?s1) x \<le> pending_on (orders s) x" for x
      by (simp add: update_surprise_bag_orders)
  qed (simp_all add: apply_update_def store_bag_def)
qed

lemma valid_delete_surprise_bag:
  assumes v: "valid_state s"
  shows "valid_state (snd (delete_surprise_bag s bid business))"
proof (cases "find (\<lambda>b. id_bag b = bid \<and> business_id b = business) (surprise_bags s)")
  case None
  with v show ?thesis by (simp add: delete_surprise_bag_def)
next
  case (Some b)
  let ?s1 = "snd (delete_surprise_bag s bid business)"
  show ?thesis
  proof (cases "filter (\<lambda>r. bag_id r = bid \<and> (status r = pending \<or> status r = confirmed))
                  (orders s) = []")
    case False
    with Some v show ?thesis by (simp add: delete_surprise_bag_def)
  next
    case True
    from find_SomeD [OF Some] v
    have c: "pending_on (orders s) bid \<le> quantity_sold b"
      "quantity_sold b \<le> quantity_available b"
      by (fastforce simp: valid_state_iff)+
    show ?thesis
    proof (rule valid_state_step [OF v Some, where k = bid
          and g = "\<lambda>b. b\<lparr>is_active_bag := False\<rparr>"])
      show "surprise_bags ?s1 = update_first (\<lambda>b. id_bag b = bid \<and> business_id b = business)
              (\<lambda>b. b\<lparr>is_active_bag := False\<rparr>) (surprise_bags s)"
        using Some True by (simp add: delete_surprise_bag_def)
      show "bag_id_seq ?s1 = bag_id_seq s"
        using Some True by (simp add: delete_surprise_bag_def)
      show "bag_id r \<in> id_bag ` set (surprise_bags s)" if "r \<in> set (orders ?s1)" for r
        using that v by (simp add: delete_surprise_bag_orders valid_state_iff)
      show "pending_on (orders ?s1) bid \<le> quantity_sold (b\<lparr>is_active_bag := False\<rparr>)"
        using c by (simp add: delete_surprise_bag_orders)
      show "quantity_sold (b\<lparr>is_active_bag := False\<rparr>)
              \<le> quantity_available (b\<lparr>is_active_bag := False\<rparr>)"
        using c by simp
      show "pending_on (orders ?s1) x \<le> pending_on (orders s) x" for x
        by (simp add: delete_surprise_bag_orders)
    qed simp_all
  qed
qed

lemma valid_serve:
  assumes "valid_state s" and "keeps_capacity s q" and "serve s q = Some s1"
  shows "valid_state s1"
proof (cases q)
  case (PlaceOrder ord cid)
  with assms(3) obtain res where "create_order s ord cid = Some (res, s1)"
    by (cases "create_order s ord cid") auto
  from valid_create_order [OF assms(1) this] show ?thesis .
next
  case (CancelOrder oid cid)
  with assms(3) valid_delete_order [OF assms(1), of oid cid] show ?thesis by simp
next
  case (UpdateStatus oid cid st)
  with assms valid_update_order_status [of s oid cid st] show ?thesis by simp
next
  case (CreateListing bag bid)
  with assms valid_create_surprise_bag [of s bag bid] show ?thesis by simp
next
  case (UpdateListing bid business bag)
  with assms valid_update_surprise_bag [of s bid business bag] show ?thesis by simp
next
  case (DeleteListing bid business)
  with assms(3) valid_delete_surprise_bag [OF assms(1), of bid business] show ?thesis by simp
qed

lemma valid_run:
  "valid_state s \<Longrightarrow> keeps_capacity_run s qs \<Longrightarrow> run s qs = Some s1 \<Longrightarrow> valid_state s1"
proof (induction qs arbitrary: s)
  case Nil
  then show ?case by simp
next
  case (Cons tq qs)
  obtain t q where tq: "tq = (t, q)" by (cases tq)
  with Cons.prems(3) obtain s2 where s2: "serve (s\<lparr>utcnow := t\<rparr>) q = Some s2"
    and r: "run s2 qs = Some s1"
    by (cases "serve (s\<lparr>utcnow := t\<rparr>) q") auto
  from Cons.prems(2) tq s2 have k: "keeps_capacity (s\<lparr>utcnow := t\<rparr>) q"
    "keeps_capacity_run s2 qs"
    by simp_all
  from Cons.prems(1) have "valid_state (s\<lparr>utcnow := t\<rparr>)" by simp
  from valid_serve [OF this k(1) s2] have "valid_state s2" .
  from Cons.IH [OF this k(2) r] show ?case .
qed


lemma keeps_capacity_run_take:
  "keeps_capacity_run s qs \<Longrightarrow> keeps_capacity_run s (take n qs)"
proof (induction qs arbitrary: s n)
  case Nil
  then show ?case by simp
next
  case (Cons tq qs)
  obtain t q where tq: "tq = (t, q)" by (cases tq)
  show ?case
  proof (cases n)
    case 0
    then show ?thesis by simp
  next
    case (Suc m)
    with Cons tq show ?thesis
      by (cases "serve (s\<lparr>utcnow := t\<rparr>) q") auto
  qed
qed

text \<open>
  Claim C2, as the code has it. Start in a valid session, and let the requests be such
  that no listing update puts \<open>quantity_available\<close> below the \<open>quantity_sold\<close> the listing has
  at that moment, and no status update turns an order that is not pending into a pending
  one. Then after each request of the run (after the first \<open>n\<close> of them, for every \<open>n\<close>)
  every listing has \<open>0 <= quantity_sold <= quantity_available\<close>, and the session is valid
  again.
\<close>

theorem capacity_invariant_kept:
  assumes "valid_state s" and "keeps_capacity_run s qs" and "run s (take n qs) = Some s1"
  shows "capacity_invariant s1 \<and> valid_state s1"
proof -
  from assms(2) have "keeps_capacity_run s (take n qs)"
    by (rule keeps_capacity_run_take)
  from valid_run [OF assms(1) this assms(3)] have "valid_state s1" .
  then show ?thesis by (simp add: valid_state_capacity)
qed

lemma demo_valid: "valid_state demo_state"
  by (simp add: valid_state_def pending_on_def demo_defs)

theorem capacity_invariant_kept_witness:
  "valid_state demo_state
   \<and> keeps_capacity_run demo_state
        [(4, UpdateListing 1 10 (demo_listing\<lparr>quantity_available_in := 3\<rparr>)),
         (5, UpdateStatus (order_id demo_order) 20 confirmed),
         (6, CancelOrder (order_id demo_order) 20)]
   \<and> run demo_state (take 3
        [(4, UpdateListing 1 10 (demo_listing\<lparr>quantity_available_in := 3\<rparr>)),
         (5, UpdateStatus (order_id demo_order) 20 confirmed),
         (6, CancelOrder (order_id demo_order) 20)]) \<noteq> None
   \<and> capacity_invariant (the (run demo_state (take 3
        [(4, UpdateListing 1 10 (demo_listing\<lparr>quantity_available_in := 3\<rparr>)),
         (5, UpdateStatus (order_id demo_order) 20 confirmed),
         (6, CancelOrder (order_id demo_order) 20)])))"
proof -
  let ?Q = "[(4, UpdateListing 1 10 (demo_listing\<lparr>quantity_available_in := 3\<rparr>)),
         (5, UpdateStatus (order_id demo_order) 20 confirmed),
         (6, CancelOrder (order_id demo_order) 20)]"
  have k: "keeps_capacity_run demo_state ?Q"
    by (simp add: update_surprise_bag_def update_order_status_def uuid4_def Let_def
          apply_update_def store_bag_def demo_defs)
  obtain s1 where r: "run demo_state (take 3 ?Q) = Some s1"
    by simp
  from capacity_invariant_kept [OF demo_valid k r] demo_valid k r
  show ?thesis by simp
qed

text \<open>
  Claim C2 as stated, for every sequence of operations, fails twice from the valid session
  \<open>demo_state\<close>, whose listing has one unit, sold to a pending order. A listing update to
  capacity 0 is accepted and leaves \<open>quantity_sold = 1 > quantity_available = 0\<close>. And
  cancelling the order, setting it back to \<open>pending\<close> and cancelling it again leaves
  \<open>quantity_sold = -1\<close>.
\<close>

theorem capacity_invariant_broken_counterexample:
  "valid_state demo_state \<and> capacity_invariant demo_state
   \<and> map_option capacity_invariant
       (run demo_state [(4, UpdateListing 1 10 (demo_listing\<lparr>quantity_available_in := 0\<rparr>))])
     = Some False
   \<and> map_option capacity_invariant
       (run demo_state [(4, CancelOrder (order_id demo_order) 20),
                        (5, UpdateStatus (order_id demo_order) 20 pending),
                        (6, CancelOrder (order_id demo_order) 20)])
     = Some False"
proof -
  have 1: "capacity_invariant demo_state"
    by (simp add: capacity_invariant_def capacity_ok_def demo_defs)
  have 2: "map_option capacity_invariant
       (run demo_state [(4, UpdateListing 1 10 (demo_listing\<lparr>quantity_available_in := 0\<rparr>))])
     = Some False"
    by (simp add: update_surprise_bag_def apply_update_def store_bag_def
          capacity_invariant_def capacity_ok_def demo_defs)
  have 3: "map_option capacity_invariant
       (run demo_state [(4, CancelOrder (order_id demo_order) 20),
                        (5, UpdateStatus (order_id demo_order) 20 pending),
                        (6, CancelOrder (order_id demo_order) 20)])
     = Some False"
    by (simp add: delete_order_def update_order_status_def get_surprise_bag_def uuid4_def
          Let_def capacity_invariant_def capacity_ok_def demo_defs)
  from demo_valid 1 2 3 show ?thesis by simp
qed

end
